theory Spec2Isabelle
  imports Complex_Main
begin

section \<open>Sugar ring analysis of clipper-glyco: data model\<close>

text \<open>
  The development follows \<^verbatim>\<open>clipper-glyco.cpp\<close>. The type \<^verbatim>\<open>clipper::ftype\<close>
  (a double) is read as a real number: sums, products, square roots and the
  trigonometric functions are the exact ones, and a comparison with a decimal
  literal is a comparison with that decimal. Where the program divides by zero the
  real-number reading gives 0 and the program gives NaN or infinity.
\<close>

subsection \<open>Vectors and coordinates\<close>

datatype Vec3 = Vec3 real real real

fun vx :: "Vec3 \<Rightarrow> real" where "vx (Vec3 a b c) = a"
fun vy :: "Vec3 \<Rightarrow> real" where "vy (Vec3 a b c) = b"
fun vz :: "Vec3 \<Rightarrow> real" where "vz (Vec3 a b c) = c"

fun vadd :: "Vec3 \<Rightarrow> Vec3 \<Rightarrow> Vec3" where
  "vadd (Vec3 a b c) (Vec3 d e f) = Vec3 (a + d) (b + e) (c + f)"

fun vsub :: "Vec3 \<Rightarrow> Vec3 \<Rightarrow> Vec3" where
  "vsub (Vec3 a b c) (Vec3 d e f) = Vec3 (a - d) (b - e) (c - f)"

fun vneg :: "Vec3 \<Rightarrow> Vec3" where
  "vneg (Vec3 a b c) = Vec3 (- a) (- b) (- c)"

fun vscale :: "Vec3 \<Rightarrow> real \<Rightarrow> Vec3" where
  "vscale (Vec3 a b c) k = Vec3 (a * k) (b * k) (c * k)"

text \<open>\<^verbatim>\<open>Vec3<>::dot\<close>, \<^verbatim>\<open>Vec3<>::cross\<close> and \<^verbatim>\<open>Vec3<>::unit\<close> of the clipper library.\<close>

fun dot :: "Vec3 \<Rightarrow> Vec3 \<Rightarrow> real" where
  "dot (Vec3 a b c) (Vec3 d e f) = a * d + b * e + c * f"

fun cross :: "Vec3 \<Rightarrow> Vec3 \<Rightarrow> Vec3" where
  "cross (Vec3 a b c) (Vec3 d e f) = Vec3 (b * f - c * e) (c * d - a * f) (a * e - b * d)"

definition unit :: "Vec3 \<Rightarrow> Vec3" where
  "unit v = vscale v (1 / sqrt (dot v v))"

text \<open>\<^verbatim>\<open>Coord_orth::length(a, b)\<close>: the distance between two points.\<close>

definition coord_length :: "Vec3 \<Rightarrow> Vec3 \<Rightarrow> real" where
  "coord_length a b = sqrt (dot (vsub a b) (vsub a b))"

text \<open>
  \<^verbatim>\<open>RTop_orth\<close>: a rotation matrix (three rows) and a translation; applying it
  to a coordinate multiplies by the matrix and adds the translation.
\<close>

datatype Mat33 = Mat33 Vec3 Vec3 Vec3

fun mat_vec :: "Mat33 \<Rightarrow> Vec3 \<Rightarrow> Vec3" where
  "mat_vec (Mat33 r1 r2 r3) v = Vec3 (dot r1 v) (dot r2 v) (dot r3 v)"

definition mat_identity :: Mat33 where
  "mat_identity = Mat33 (Vec3 1 0 0) (Vec3 0 1 0) (Vec3 0 0 1)"

record RTop_orth =
  rot :: Mat33
  trn :: Vec3

definition rtop_apply :: "RTop_orth \<Rightarrow> Vec3 \<Rightarrow> Vec3" where
  "rtop_apply rt v = vadd (mat_vec (rot rt) v) (trn rt)"

subsection \<open>Atoms and monomers\<close>

text \<open>
  An atom carries its identifier (a four-character name, followed by
  \<^verbatim>\<open>:\<close> and the alternate-conformation code when there is one), its element,
  its coordinates and its occupancy.
\<close>

record MAtom =
  atom_id :: string
  element :: string
  coord_orth :: Vec3
  occupancy :: real

definition is_blank :: "char \<Rightarrow> bool" where
  "is_blank c = (c = CHR '' '')"

text \<open>\<^verbatim>\<open>String::trim\<close>: leading and trailing blanks removed.\<close>

definition trim :: "string \<Rightarrow> string" where
  "trim s = rev (dropWhile is_blank (rev (dropWhile is_blank s)))"

text \<open>\<^verbatim>\<open>MAtom::name\<close>: the identifier without the alternate-conformation code.\<close>

definition name :: "MAtom \<Rightarrow> string" where
  "name a = take 4 (atom_id a)"

definition transform :: "RTop_orth \<Rightarrow> MAtom \<Rightarrow> MAtom" where
  "transform rt a = a\<lparr>coord_orth := rtop_apply rt (coord_orth a)\<rparr>"

text \<open>
  \<^verbatim>\<open>MSugar::get_altconf\<close>: the character at index 5 of the identifier, a blank
  when the identifier is not longer than five characters.
\<close>

definition get_altconf :: "MAtom \<Rightarrow> char" where
  "get_altconf ma = (let identifier = atom_id ma in
     if length identifier > 5 then identifier ! 5 else CHR '' '')"

text \<open>\<^verbatim>\<open>MSugar::is_part_of_ring\<close>: some ring atom has the same trimmed name.\<close>

fun is_part_of_ring :: "MAtom \<Rightarrow> MAtom list \<Rightarrow> bool" where
  "is_part_of_ring ma [] = False"
| "is_part_of_ring ma (r # ring_atoms) =
     (if trim (name r) = trim (name ma) then True else is_part_of_ring ma ring_atoms)"

section \<open>Bond Oracle\<close>

text \<open>
  \<^verbatim>\<open>MSugar::bonded(const MAtom&, const MAtom&)\<close>. The branches follow the source:
  the window is selected by the element of the first atom, then by the element of
  the second; a first atom that is C, N or O with a second atom matching no branch
  reaches the final \<^verbatim>\<open>return false\<close>; the window 1.2 to 1.8 is the \<^verbatim>\<open>else\<close> of
  the chain on the first atom.
\<close>

definition bonded :: "MAtom \<Rightarrow> MAtom \<Rightarrow> bool" where
  "bonded ma_one ma_two =
    (let distance = coord_length (coord_orth ma_one) (coord_orth ma_two) in
     if trim (element ma_one) = ''C'' then
       (if trim (element ma_two) = ''C'' then distance > 1.18 \<and> distance < 1.60
        else if trim (element ma_two) = ''N'' then distance > 1.24 \<and> distance < 1.52
        else if trim (element ma_two) = ''O'' then distance > 1.16 \<and> distance < 1.50
        else if trim (element ma_two) = ''H'' then distance > 0.96 \<and> distance < 1.14
        else False)
     else if trim (element ma_one) = ''N'' then
       (if trim (element ma_two) = ''C'' then distance > 1.24 \<and> distance < 1.52
        else if trim (element ma_two) = ''H'' then distance > 0.90 \<and> distance < 1.10
        else False)
     else if trim (element ma_one) = ''O'' then
       (if trim (element ma_two) = ''C'' then distance > 1.16 \<and> distance < 1.50
        else if trim (element ma_two) = ''H'' then distance > 0.88 \<and> distance < 1.04
        else False)
     else distance > 1.2 \<and> distance < 1.8)"

section \<open>Conformation Classifier\<close>

text \<open>
  The conformation codes are integer constants of the header; they are kept
  symbolic here, one constructor for each name the source uses. \<open>conf_unassigned\<close>
  stands for the value 0 that \<^verbatim>\<open>confCode\<close> is initialised with and keeps when no
  branch assigns it.
\<close>

datatype conformation =
    conf_unassigned
  | conf_pyranose_4C1 | conf_pyranose_1C4
  | conf_pyranose_OH1 | conf_pyranose_E1 | conf_pyranose_2H1 | conf_pyranose_2E
  | conf_pyranose_2H3 | conf_pyranose_E3 | conf_pyranose_4H3 | conf_pyranose_4E
  | conf_pyranose_4H5 | conf_pyranose_E5 | conf_pyranose_OH5 | conf_pyranose_OE
  | conf_pyranose_3S1 | conf_pyranose_B14 | conf_pyranose_5S1 | conf_pyranose_25B
  | conf_pyranose_2SO | conf_pyranose_B3O | conf_pyranose_1S3 | conf_pyranose_14B
  | conf_pyranose_1S5 | conf_pyranose_B25 | conf_pyranose_OS2 | conf_pyranose_3OB
  | conf_pyranose_3H4 | conf_pyranose_E4 | conf_pyranose_5H4 | conf_pyranose_5E
  | conf_pyranose_5HO | conf_pyranose_EO | conf_pyranose_1HO | conf_pyranose_1E
  | conf_pyranose_1H2 | conf_pyranose_E2 | conf_pyranose_3H2 | conf_pyranose_3E
  | conf_furanose_3T2 | conf_furanose_3EV | conf_furanose_3T4 | conf_furanose_4EV
  | conf_furanose_OT4 | conf_furanose_OEV | conf_furanose_OT1 | conf_furanose_EV1
  | conf_furanose_2T1 | conf_furanose_2EV | conf_furanose_2T3 | conf_furanose_EV3
  | conf_furanose_4T3 | conf_furanose_4TO | conf_furanose_EVO | conf_furanose_1TO
  | conf_furanose_1EV | conf_furanose_1T2

definition conformationPyranose :: "real \<Rightarrow> real \<Rightarrow> conformation" where
  "conformationPyranose phi theta =
    (if theta \<le> 22.5 then conf_pyranose_4C1
     else if theta > 22.5 \<and> theta \<le> 67.5 then
       (if phi > 15.0 \<and> phi \<le> 45.0 then conf_pyranose_OH1
        else if phi > 45.0 \<and> phi \<le> 75.0 then conf_pyranose_E1
        else if phi > 75.0 \<and> phi \<le> 105.0 then conf_pyranose_2H1
        else if phi > 105.0 \<and> phi \<le> 135.0 then conf_pyranose_2E
        else if phi > 135.0 \<and> phi \<le> 165.0 then conf_pyranose_2H3
        else if phi > 165.0 \<and> phi \<le> 195.0 then conf_pyranose_E3
        else if phi > 195.0 \<and> phi \<le> 225.0 then conf_pyranose_4H3
        else if phi > 225.0 \<and> phi \<le> 255.0 then conf_pyranose_4E
        else if phi > 255.0 \<and> phi \<le> 285.0 then conf_pyranose_4H5
        else if phi > 285.0 \<and> phi \<le> 315.0 then conf_pyranose_E5
        else if phi > 315.0 \<and> phi \<le> 345.0 then conf_pyranose_OH5
        else if phi > 345.0 \<or> phi \<le> 15.0 then conf_pyranose_OE
        else conf_unassigned)
     else if theta > 67.5 \<and> theta \<le> 112.5 then
       (if phi > 15.0 \<and> phi \<le> 45.0 then conf_pyranose_3S1
        else if phi > 45.0 \<and> phi \<le> 75.0 then conf_pyranose_B14
        else if phi > 75.0 \<and> phi \<le> 105.0 then conf_pyranose_5S1
        else if phi > 105.0 \<and> phi \<le> 135.0 then conf_pyranose_25B
        else if phi > 135.0 \<and> phi \<le> 165.0 then conf_pyranose_2SO
        else if phi > 165.0 \<and> phi \<le> 195.0 then conf_pyranose_B3O
        else if phi > 195.0 \<and> phi \<le> 225.0 then conf_pyranose_1S3
        else if phi > 225.0 \<and> phi \<le> 255.0 then conf_pyranose_14B
        else if phi > 255.0 \<and> phi \<le> 285.0 then conf_pyranose_1S5
        else if phi > 285.0 \<and> phi \<le> 315.0 then conf_pyranose_B25
        else if phi > 315.0 \<and> phi \<le> 345.0 then conf_pyranose_OS2
        else if phi > 345.0 \<or> phi \<le> 15.0 then conf_pyranose_3OB
        else conf_unassigned)
     else if theta > 112.5 \<and> theta \<le> 157.5 then
       (if phi > 15.0 \<and> phi \<le> 45.0 then conf_pyranose_3H4
        else if phi > 45.0 \<and> phi \<le> 75.0 then conf_pyranose_E4
        else if phi > 75.0 \<and> phi \<le> 105.0 then conf_pyranose_5H4
        else if phi > 105.0 \<and> phi \<le> 135.0 then conf_pyranose_5E
        else if phi > 135.0 \<and> phi \<le> 165.0 then conf_pyranose_5HO
        else if phi > 165.0 \<and> phi \<le> 195.0 then conf_pyranose_EO
        else if phi > 195.0 \<and> phi \<le> 225.0 then conf_pyranose_1HO
        else if phi > 225.0 \<and> phi \<le> 255.0 then conf_pyranose_1E
        else if phi > 255.0 \<and> phi \<le> 285.0 then conf_pyranose_1H2
        else if phi > 285.0 \<and> phi \<le> 315.0 then conf_pyranose_E2
        else if phi > 315.0 \<and> phi \<le> 345.0 then conf_pyranose_3H2
        else if phi > 345.0 \<or> phi \<le> 15.0 then conf_pyranose_3E
        else conf_unassigned)
     else if theta \<ge> 157.5 then conf_pyranose_1C4
     else conf_unassigned)"

definition conformationFuranose :: "real \<Rightarrow> conformation" where
  "conformationFuranose theta =
    (if theta > 175.5 \<or> theta < 4.5 then conf_furanose_3T2
     else if theta > 4.5 \<and> theta < 13.5 then conf_furanose_3EV
     else if theta > 13.5 \<and> theta < 22.5 then conf_furanose_3T4
     else if theta > 22.5 \<and> theta < 31.5 then conf_furanose_4EV
     else if theta > 31.5 \<and> theta < 40.5 then conf_furanose_OT4
     else if theta > 40.5 \<and> theta < 49.5 then conf_furanose_OEV
     else if theta > 49.5 \<and> theta < 58.5 then conf_furanose_OT1
     else if theta > 58.5 \<and> theta < 67.5 then conf_furanose_EV1
     else if theta > 67.5 \<and> theta < 76.5 then conf_furanose_2T1
     else if theta > 76.5 \<and> theta < 85.5 then conf_furanose_2EV
     else if theta > 85.5 \<and> theta < 94.5 then conf_furanose_2T3
     else if theta > 94.5 \<and> theta < 103.5 then conf_furanose_EV3
     else if theta > 103.5 \<and> theta < 112.5 then conf_furanose_4T3
     else if theta > 112.5 \<and> theta < 121.5 then conf_furanose_4EV
     else if theta > 121.5 \<and> theta < 130.5 then conf_furanose_4TO
     else if theta > 130.5 \<and> theta < 139.5 then conf_furanose_EVO
     else if theta > 139.5 \<and> theta < 148.5 then conf_furanose_1TO
     else if theta > 148.5 \<and> theta < 157.5 then conf_furanose_1EV
     else if theta > 157.5 \<and> theta < 166.5 then conf_furanose_1T2
     else if theta > 166.5 \<and> theta < 175.5 then conf_furanose_2EV
     else conf_unassigned)"

section \<open>Ring Finder: bonded neighbours of the cycle search\<close>

type_synonym visited_arcs = "(MAtom \<times> MAtom) list"

text \<open>\<^verbatim>\<open>MSugar::lookup_visited\<close>: the arc is in the history, in either direction.\<close>

fun lookup_visited :: "visited_arcs \<Rightarrow> MAtom \<times> MAtom \<Rightarrow> bool" where
  "lookup_visited [] pairs = False"
| "lookup_visited (v # va) pairs =
     (if (trim (name (fst pairs)) = trim (name (fst v)) \<and> trim (name (snd pairs)) = trim (name (snd v)))
        \<or> (trim (name (fst pairs)) = trim (name (snd v)) \<and> trim (name (snd pairs)) = trim (name (fst v)))
      then True else lookup_visited va pairs)"

text \<open>\<^verbatim>\<open>MSugar::closes_ring\<close>: the atom already starts an arc of the history.\<close>

fun closes_ring :: "MAtom \<Rightarrow> visited_arcs \<Rightarrow> bool" where
  "closes_ring ma [] = False"
| "closes_ring ma (v # background) =
     (if trim (name (fst v)) = trim (name ma) then True else closes_ring ma background)"

text \<open>
  \<^verbatim>\<open>MSugar::findBonded\<close>: the atoms of the monomer, in order, whose distance to
  \<open>ma\<close> is inside the single window 0.5 to 1.61 ("any type of bond"), whose arc
  with \<open>ma\<close> is not visited yet and which have the alternate-conformation code
  of \<open>ma\<close>.
\<close>

definition findBonded_keeps :: "MAtom \<Rightarrow> visited_arcs \<Rightarrow> MAtom \<Rightarrow> bool" where
  "findBonded_keeps ma background a =
    (let bond_length = coord_length (coord_orth a) (coord_orth ma) in
     (bond_length > 0.5 \<and> bond_length < 1.61)
     \<and> \<not> lookup_visited background (ma, a)
     \<and> get_altconf ma = get_altconf a)"

definition findBonded :: "MAtom list \<Rightarrow> MAtom \<Rightarrow> visited_arcs \<Rightarrow> MAtom list" where
  "findBonded atom_list ma background = filter (findBonded_keeps ma background) atom_list"

section \<open>Monomer lookup and the reference database\<close>

datatype MODE = UNIQUE | ANY

text \<open>
  \<^verbatim>\<open>MMonomer::lookup\<close> of the clipper library, written from its documented
  behaviour: the search string is tidied into an identifier (the name padded to
  four characters, then the alternate-conformation part from the colon on), and the
  index of the first atom whose identifier matches is returned, -1 when there is
  none. In mode \<open>UNIQUE\<close> the whole identifiers are compared, otherwise their
  first four characters.
\<close>

definition islower :: "char \<Rightarrow> bool" where
  "islower c = (97 \<le> (of_char c :: nat) \<and> (of_char c :: nat) \<le> 122)"

definition toupper :: "char \<Rightarrow> char" where
  "toupper c = (if islower c then char_of ((of_char c :: nat) - 32) else c)"

definition id_tidy :: "string \<Rightarrow> string" where
  "id_tidy ident =
    (let nm = takeWhile (\<lambda>c. c \<noteq> CHR '':'') ident;
         altc = dropWhile (\<lambda>c. c \<noteq> CHR '':'') ident;
         padded = nm @ ''   '';
         nm4 = (if length nm < 4
                then (if islower (padded ! 1) then padded[1 := toupper (padded ! 1)]
                      else '' '' @ padded)
                else nm)
     in take 4 nm4 @ altc)"

definition id_match :: "string \<Rightarrow> string \<Rightarrow> MODE \<Rightarrow> bool" where
  "id_match id1 id2 mode = (if mode = UNIQUE then id1 = id2 else take 4 id1 = take 4 id2)"

fun lookup_from :: "MAtom list \<Rightarrow> string \<Rightarrow> MODE \<Rightarrow> int \<Rightarrow> int" where
  "lookup_from [] sid mode atm = - 1"
| "lookup_from (c # children) sid mode atm =
     (if id_match sid (atom_id c) mode then atm else lookup_from children sid mode (atm + 1))"

definition lookup :: "MAtom list \<Rightarrow> string \<Rightarrow> MODE \<Rightarrow> int" where
  "lookup children str mode = lookup_from children (id_tidy str) mode 0"

text \<open>\<^verbatim>\<open>MAtom::set_id\<close> stores the tidied identifier.\<close>

definition set_id :: "MAtom \<Rightarrow> string \<Rightarrow> MAtom" where
  "set_id a s = a\<lparr>atom_id := id_tidy s\<rparr>"

text \<open>
  A default-constructed \<^verbatim>\<open>MAtom\<close>. The library leaves its coordinates and
  occupancy unset; no decision of the functions below reads them.
\<close>

definition default_MAtom :: MAtom where
  "default_MAtom = \<lparr>atom_id = [], element = [], coord_orth = Vec3 0 0 0, occupancy = 0\<rparr>"

text \<open>\<^verbatim>\<open>String::split\<close> at blanks: the non-empty tokens, in order.\<close>

fun split_tokens :: "string \<Rightarrow> string \<Rightarrow> string list" where
  "split_tokens cur [] = (if cur = [] then [] else [cur])"
| "split_tokens cur (c # cs) =
     (if is_blank c then (if cur = [] then split_tokens [] cs else cur # split_tokens [] cs)
      else split_tokens (cur @ [c]) cs)"

definition split_blank :: "string \<Rightarrow> string list" where
  "split_blank s = split_tokens [] s"

text \<open>\<^verbatim>\<open>std::string::find(p) != npos\<close>: \<open>p\<close> occurs in the string.\<close>

fun starts_with :: "string \<Rightarrow> string \<Rightarrow> bool" where
  "starts_with s [] = True"
| "starts_with [] (p # ps) = False"
| "starts_with (c # cs) (p # ps) = (c = p \<and> starts_with cs ps)"

fun str_contains :: "string \<Rightarrow> string \<Rightarrow> bool" where
  "str_contains [] p = (p = [])"
| "str_contains (c # cs) p = (starts_with (c # cs) p \<or> str_contains cs p)"

text \<open>
  An entry of \<^verbatim>\<open>clipper::data::sugar_database\<close>, with the fields the constructor
  reads. The table itself belongs to the library data and is a parameter of the
  functions below.
\<close>

record sugar_database_entry =
  name_short :: string
  anomer :: string
  handedness :: string
  ring_atoms :: string

datatype db_index = db_not_checked | db_not_found | db_entry nat

section \<open>The sugar object\<close>

record MMonomer =
  mm_type :: string
  atom_list :: "MAtom list"

text \<open>
  \<^verbatim>\<open>MSugar\<close> extends \<^verbatim>\<open>MMonomer\<close>; the fields are the members the constructor
  and the functions it calls write. The list of ring torsions is left out: it is
  filled by a library function and read by none of the functions here.
\<close>

record MSugar = MMonomer +
  sugar_supported :: bool
  sugar_index :: db_index
  sugar_alternate_confcode :: string
  sugar_found_db :: bool
  sugar_ring_elements :: "MAtom list"
  sugar_sane :: bool
  sugar_denomination :: string
  sugar_anomer :: string
  sugar_handedness :: string
  sugar_conformation :: conformation
  sugar_cremer_pople_params :: "real list"
  sugar_centre :: Vec3
  sugar_anomeric_carbon :: MAtom
  sugar_anomeric_substituent :: MAtom
  sugar_configurational_carbon :: MAtom
  sugar_configurational_substituent :: MAtom
  sugar_diag_ring :: bool
  sugar_diag_chirality :: bool
  sugar_diag_anomer :: bool
  sugar_diag_bonds_rmsd :: bool
  sugar_diag_angles_rmsd :: bool
  sugar_ring_angles :: "real list"
  sugar_ring_bonds :: "real list"
  sugar_ring_angle_rmsd :: real
  sugar_ring_bond_rmsd :: real

type_synonym stereochemistry_pairs = "(MAtom \<times> MAtom) \<times> (MAtom \<times> MAtom)"

text \<open>
  What the analysis obtains from outside the functions modelled here:
  \<^item> \<open>atoms_near c r\<close>: the atoms of the parent molecule that its spatial index
    (\<^verbatim>\<open>MAtomNonBond::atoms_near\<close>) returns for the point \<open>c\<close> and the radius \<open>r\<close>,
    in the order of the index;
  \<^item> \<open>ringMembers\<close>: the ring that the recursive cycle search returns for the atoms
    of the monomer;
  \<^item> \<open>get_stereochemistry\<close>: the anomeric and configurational carbon/substituent
    pairs found for a ring (the search uses the spatial index and the space group);
  \<^item> \<open>to_float\<close>: the conversion of a double to single precision.
\<close>

record analysis_env =
  atoms_near :: "Vec3 \<Rightarrow> real \<Rightarrow> MAtom list"
  ringMembers :: "MAtom list \<Rightarrow> MAtom list"
  get_stereochemistry :: "MAtom list \<Rightarrow> stereochemistry_pairs"
  to_float :: "real \<Rightarrow> real"

text \<open>
  Element access \<^verbatim>\<open>mm[i]\<close> with the index a lookup returned: outside the list
  (a failed lookup gives -1) the program has no defined behaviour, the model no
  result.
\<close>

definition atom_at :: "MAtom list \<Rightarrow> int \<Rightarrow> MAtom option" where
  "atom_at atoms i = (if 0 \<le> i \<and> i < int (length atoms) then Some (atoms ! nat i) else None)"

definition named_coord :: "MAtom list \<Rightarrow> string \<Rightarrow> Vec3 option" where
  "named_coord atoms nz = map_option coord_orth (atom_at atoms (lookup atoms nz ANY))"

definition vdiv :: "Vec3 \<Rightarrow> real \<Rightarrow> Vec3" where
  "vdiv v k = Vec3 (vx v / k) (vy v / k) (vz v / k)"

definition rad2d :: "real \<Rightarrow> real" where
  "rad2d x = x * (180 / pi)"

section \<open>Sanity engine: ring geometry\<close>

definition ring_angle :: "Vec3 \<Rightarrow> Vec3 \<Rightarrow> Vec3 \<Rightarrow> real" where
  "ring_angle before mid after =
    (let vec_a = vsub before mid;
         vec_b = vsub after mid;
         norm_a = sqrt ((vx vec_a)\<^sup>2 + (vy vec_a)\<^sup>2 + (vz vec_a)\<^sup>2);
         norm_b = sqrt ((vx vec_b)\<^sup>2 + (vy vec_b)\<^sup>2 + (vz vec_b)\<^sup>2)
     in rad2d (arccos (dot vec_a vec_b / (norm_a * norm_b))))"

text \<open>
  The two accumulation loops of \<^verbatim>\<open>examine_ring\<close>: the first and the last entry are
  compared with the ideal value of a bond or angle at the ring oxygen, the others
  with the ideal value between carbons.
\<close>

definition rmsd_sum :: "real \<Rightarrow> real \<Rightarrow> real list \<Rightarrow> nat \<Rightarrow> nat \<Rightarrow> real" where
  "rmsd_sum ideal_end ideal_mid values last_index count =
    foldl (\<lambda>acc j. if j = 0 \<or> j = last_index then acc + (values ! j - ideal_end)\<^sup>2
                    else acc + (values ! j - ideal_mid)\<^sup>2) 0 [0..<count]"

text \<open>
  \<^verbatim>\<open>MSugar::examine_ring\<close>: angles and bond lengths around the ring, their
  root-mean-square deviations from the ideal values, and whether every pair of
  consecutive ring atoms, the closing pair included, is bonded. A ring of fewer than
  three atoms is read out of range by the program.
\<close>

definition examine_ring :: "MSugar \<Rightarrow> (bool \<times> MSugar) option" where
  "examine_ring s =
    (let ring = sugar_ring_elements s; n = length ring in
     if n < 3 then None
     else
       let c = (\<lambda>i. coord_orth (ring ! i));
           angles = sugar_ring_angles s
                    @ [ring_angle (c (n - 1)) (c 0) (c 1)]
                    @ map (\<lambda>i. ring_angle (c (i - 1)) (c i) (c (i + 1))) [1..<n - 1]
                    @ [ring_angle (c (n - 2)) (c (n - 1)) (c 0)];
           bonds = sugar_ring_bonds s
                    @ [coord_length (c (n - 1)) (c 0)]
                    @ map (\<lambda>i. coord_length (c (i + 1)) (c i)) [1..<n - 1]
                    @ [coord_length (c 0) (c (n - 1))]
       in if length angles < length bonds then None
          else
            let rmsd_bonds = sqrt (rmsd_sum 1.430 1.530 bonds (length bonds - 1) (length bonds)
                                   / real (length bonds));
                rmsd_angles = sqrt (rmsd_sum 112.0 109.0 angles (length angles - 1) (length bonds)
                                   / real (length angles));
                s' = s\<lparr>sugar_ring_angles := angles, sugar_ring_bonds := bonds,
                       sugar_ring_angle_rmsd := rmsd_angles, sugar_ring_bond_rmsd := rmsd_bonds\<rparr>
            in Some (list_all (\<lambda>i. bonded (ring ! i) (ring ! (i + 1))) [0..<n - 1]
                       \<and> bonded (ring ! (n - 1)) (ring ! 0), s'))"

section \<open>Cremer-Pople Analyzer\<close>

datatype anomer_code = anomer_alpha | anomer_beta

text \<open>
  The vector of parameters a Cremer-Pople function returns holds numbers, the
  conformation code and the anomer code, each converted to a double; the codes stay
  symbolic here.
\<close>

datatype cp_value = Num real | Conf conformation | Anomer anomer_code

definition centre_of :: "Vec3 list \<Rightarrow> real \<Rightarrow> Vec3" where
  "centre_of cs k = vdiv (foldl vadd (Vec3 0 0 0) cs) k"

definition shift_to :: "Vec3 \<Rightarrow> RTop_orth" where
  "shift_to centre = \<lparr>rot = mat_identity, trn = vneg centre\<rparr>"

text \<open>
  The mean-plane normal: \<open>rPrime\<close> and \<open>r2Prime\<close> add the ring coordinates weighted
  by the sine and the cosine of \<open>2 * pi * j / N\<close>, for the ring positions
  \<open>j = 0, ..., N - 1\<close>; the normal is the unit vector of their cross product.
\<close>

definition weighted_sum :: "(real \<Rightarrow> real) \<Rightarrow> Vec3 list \<Rightarrow> Vec3" where
  "weighted_sum f ps =
     foldl vadd (Vec3 0 0 0)
       (map (\<lambda>j. vscale (ps ! j) (f (2 * pi * real j / real (length ps)))) [0..<length ps])"

definition mean_plane_normal :: "Vec3 list \<Rightarrow> Vec3" where
  "mean_plane_normal ps =
     (let rPrime = weighted_sum sin ps; r2Prime = weighted_sum cos ps
      in unit (cross rPrime r2Prime))"

record projection =
  pr_centre :: Vec3
  pr_normal :: Vec3
  pr_z :: "real list"

text \<open>
  The geometric part shared by both Cremer-Pople functions: the centre of the ring
  atoms (looked up by name in \<open>own\<close>, the atoms of the sugar), the translation of
  the working copy \<open>mm\<close> to that centre, the mean-plane normal and the projections
  of the ring atoms (looked up by name in the translated copy) on it.
\<close>

definition project_ring :: "MAtom list \<Rightarrow> MAtom list \<Rightarrow> string list \<Rightarrow> projection option" where
  "project_ring own mm nz =
    (case those (map (named_coord own) nz) of
       None \<Rightarrow> None
     | Some cs \<Rightarrow>
        (let centre = centre_of cs (real (length nz));
             shifted = map (transform (shift_to centre)) mm
         in case those (map (named_coord shifted) nz) of
              None \<Rightarrow> None
            | Some ps \<Rightarrow>
               (let n = mean_plane_normal ps
                in Some \<lparr>pr_centre = centre, pr_normal = n, pr_z = map (\<lambda>p. dot p n) ps\<rparr>)))"

text \<open>
  The scan for the substituent of the ring-closing carbon: any atom of the
  neighbourhood that is no hydrogen, does not carry the carbon's name, is nearer
  than 1.8 and is not in the ring replaces the current choice when it is no carbon,
  and replaces only the initial "XXX" atom when it is a carbon. The pyranose scan
  also asks for the occupancy of the ring-closing carbon.
\<close>

definition nz6_step :: "MAtom \<Rightarrow> MAtom list \<Rightarrow> MAtom \<Rightarrow> MAtom \<Rightarrow> MAtom" where
  "nz6_step ring_close ring substituent a =
    (if trim (element a) \<noteq> ''H'' \<and> trim (name a) \<noteq> trim (name ring_close) then
       (if coord_length (coord_orth a) (coord_orth ring_close) < 1.8 then
          (if \<not> is_part_of_ring a ring \<and> occupancy ring_close = occupancy a then
             (if trim (element a) \<noteq> ''C'' then a
              else if trim (name substituent) = ''XXX'' then a else substituent)
           else substituent)
        else substituent)
     else substituent)"

definition nz5_step :: "MAtom \<Rightarrow> MAtom list \<Rightarrow> MAtom \<Rightarrow> MAtom \<Rightarrow> MAtom" where
  "nz5_step ring_close ring substituent a =
    (if trim (element a) \<noteq> ''H'' \<and> trim (name a) \<noteq> trim (name ring_close) then
       (if coord_length (coord_orth a) (coord_orth ring_close) < 1.8 then
          (if \<not> is_part_of_ring a ring then
             (if trim (element a) \<noteq> ''C'' then a
              else if trim (name substituent) = ''XXX'' then a else substituent)
           else substituent)
        else substituent)
     else substituent)"

definition nz6_substituent :: "analysis_env \<Rightarrow> MAtom list \<Rightarrow> MAtom" where
  "nz6_substituent env ring =
     foldl (nz6_step (ring ! 5) ring) (set_id default_MAtom ''XXX'')
       (atoms_near env (coord_orth (ring ! 5)) 1.2)"

definition nz5_substituent :: "analysis_env \<Rightarrow> MAtom list \<Rightarrow> MAtom" where
  "nz5_substituent env ring =
     foldl (nz5_step (ring ! 4) ring) (set_id default_MAtom ''XXX'')
       (atoms_near env (coord_orth (ring ! 4)) 1.5)"

definition lurd_reverse :: "stereochemistry_pairs \<Rightarrow> MAtom \<Rightarrow> MAtom list \<Rightarrow> bool" where
  "lurd_reverse stereo ring_close ring =
    (let configurational_carbon = trim (name (fst (snd stereo))) in
     configurational_carbon \<noteq> ''XXX''
     \<and> (trim (name ring_close) = configurational_carbon
        \<or> \<not> is_part_of_ring (fst (snd stereo)) ring))"

definition anomer_decision :: "bool \<Rightarrow> real \<Rightarrow> real \<Rightarrow> real \<Rightarrow> real \<Rightarrow> anomer_code" where
  "anomer_decision reverse z_anomeric_carbon z_anomeric_substituent
       z_configurational_carbon z_configurational_substituent =
    (if (z_anomeric_substituent > z_anomeric_carbon
           \<and> z_configurational_substituent > z_configurational_carbon)
        \<or> (z_anomeric_substituent < z_anomeric_carbon
           \<and> z_configurational_substituent < z_configurational_carbon)
     then (if reverse then anomer_beta else anomer_alpha)
     else (if reverse then anomer_alpha else anomer_beta))"

fun anomer_string :: "anomer_code \<Rightarrow> string" where
  "anomer_string anomer_alpha = ''alpha''"
| "anomer_string anomer_beta = ''beta''"

definition stereo_anomer :: "stereochemistry_pairs \<Rightarrow> bool \<Rightarrow> projection \<Rightarrow> anomer_code" where
  "stereo_anomer stereo reverse pr =
    (let shift = shift_to (pr_centre pr); n = pr_normal pr;
         z_of = (\<lambda>a. dot (coord_orth (transform shift a)) n)
     in anomer_decision reverse (z_of (fst (fst stereo))) (z_of (snd (fst stereo)))
          (z_of (fst (snd stereo))) (z_of (snd (snd stereo))))"

definition store_stereo :: "stereochemistry_pairs \<Rightarrow> MSugar \<Rightarrow> MSugar" where
  "store_stereo stereo s =
     s\<lparr>sugar_anomeric_carbon := fst (fst stereo),
       sugar_anomeric_substituent := snd (fst stereo),
       sugar_configurational_carbon := fst (snd stereo),
       sugar_configurational_substituent := snd (snd stereo)\<rparr>"

definition handedness_of :: "MAtom \<Rightarrow> MAtom list \<Rightarrow> real \<Rightarrow> real \<Rightarrow> string" where
  "handedness_of substituent ring z_ring_close z_substituent =
    (if is_part_of_ring substituent ring \<or> trim (name substituent) = ''XXX'' then ''N''
     else if z_ring_close - z_substituent < 0 then ''D'' else ''L'')"

text \<open>
  The puckering parameters of \<^verbatim>\<open>cremerPople_pyranose\<close>, from the six projections:
  the total puckering amplitude, the phase angle \<open>phi2\<close> and the polar angle
  \<open>theta\<close> in degrees, and the amplitudes \<open>q2\<close> and \<open>q3\<close>, in this order. The two
  candidates for \<open>phi2\<close> are told apart by a comparison in single precision.
\<close>

definition pyranose_parameters :: "(real \<Rightarrow> real) \<Rightarrow> real list \<Rightarrow> real list" where
  "pyranose_parameters float z =
    (let z1 = z ! 0; z2 = z ! 1; z3 = z ! 2; z4 = z ! 3; z5 = z ! 4; z6 = z ! 5;
         totalPuckering = sqrt (z1\<^sup>2 + z2\<^sup>2 + z3\<^sup>2 + z4\<^sup>2 + z5\<^sup>2 + z6\<^sup>2);
         q3 = sqrt (1 / 6) * (z3 + z5 + z1 - z2 - z4 - z6);
         theta = arccos (q3 / totalPuckering);
         q2 = totalPuckering * sin theta;
         theta_degrees = theta * (180 / pi);
         angleCos = arccos (sqrt (1 / 3)
             * (z1 + z2 * cos (4 * pi / 6) + z3 * cos (8 * pi / 6) + z4 * cos (12 * pi / 6)
                + z5 * cos (16 * pi / 6) + z6 * cos (20 * pi / 6)) / q2);
         argASin = - sqrt (1 / 3)
             * (z2 * sin (4 * pi / 6) + z3 * sin (8 * pi / 6) + z4 * sin (12 * pi / 6)
                + z5 * sin (16 * pi / 6) + z6 * sin (20 * pi / 6));
         phi2 = (if float (q2 * sin angleCos) = float argASin
                 then angleCos else 2 * pi - angleCos) * (180 / pi)
     in [totalPuckering, phi2, theta_degrees, q2, q3])"

text \<open>
  The puckering parameters of \<^verbatim>\<open>cremerPople_furanose\<close>, from the five projections:
  the total puckering amplitude, the phase angle \<open>phi2\<close> in degrees and the
  amplitude \<open>q2\<close>.
\<close>

definition furanose_parameters :: "real list \<Rightarrow> real list" where
  "furanose_parameters z =
    (let z1 = z ! 0; z2 = z ! 1; z3 = z ! 2; z4 = z ! 3; z5 = z ! 4;
         totalPuckering = sqrt (z1\<^sup>2 + z2\<^sup>2 + z3\<^sup>2 + z4\<^sup>2 + z5\<^sup>2);
         argACos = sqrt (1 / 3)
             * (z1 + z2 * cos (4 * pi / 5) + z3 * cos (8 * pi / 5) + z4 * cos (12 * pi / 5)
                + z5 * cos (16 * pi / 5));
         argASin = - sqrt (1 / 3)
             * (z2 * sin (4 * pi / 5) + z3 * sin (8 * pi / 5) + z4 * sin (12 * pi / 5)
                + z5 * sin (16 * pi / 5));
         phi2_radians = arctan (argASin / argACos) + pi / 2;
         q2 = argACos / cos phi2_radians;
         phi2 = phi2_radians * (180 / pi)
     in [totalPuckering, phi2, q2])"

text \<open>
  \<^verbatim>\<open>MSugar::cremerPople_pyranose\<close>, called for a ring of six atoms. The result is
  the returned parameter vector and the updated sugar; there is none when a ring
  atom is not found by name.
\<close>

definition cremerPople_pyranose ::
    "analysis_env \<Rightarrow> MAtom list \<Rightarrow> MSugar \<Rightarrow> (cp_value list \<times> MSugar) option" where
  "cremerPople_pyranose env mm s =
    (let ring = sugar_ring_elements s in
     if length ring < 6 then None
     else
       let stereo = get_stereochemistry env ring;
           reverse = lurd_reverse stereo (ring ! 5) ring
       in case project_ring (atom_list s) mm (map (\<lambda>a. trim (name a)) (take 6 ring)) of
            None \<Rightarrow> None
          | Some pr \<Rightarrow>
             (let z6 = pr_z pr ! 5;
                  substituent = transform (shift_to (pr_centre pr)) (nz6_substituent env ring);
                  z6_substituent = dot (coord_orth substituent) (pr_normal pr);
                  p = pyranose_parameters (to_float env) (pr_z pr);
                  a = stereo_anomer stereo reverse pr;
                  cpParams = [Num (p ! 0), Num (p ! 1), Num (p ! 2), Num (p ! 3), Num (p ! 4),
                              Conf (sugar_conformation s), Anomer a, Num (z6 - z6_substituent)];
                  s' = (store_stereo stereo s)
                         \<lparr>sugar_centre := pr_centre pr,
                          sugar_cremer_pople_params :=
                            sugar_cremer_pople_params s @ [p ! 0, p ! 1, p ! 2],
                          sugar_anomer := anomer_string a,
                          sugar_handedness :=
                            handedness_of substituent (sugar_ring_elements s) z6 z6_substituent\<rparr>
              in Some (cpParams, s')))"

text \<open>
  \<^verbatim>\<open>MSugar::cremerPople_furanose\<close>, called for a ring of five atoms; it works on
  a copy of the sugar itself, and has one puckering angle: the places of \<open>theta\<close>
  and \<open>q3\<close> hold -1.
\<close>

definition cremerPople_furanose ::
    "analysis_env \<Rightarrow> MAtom list \<Rightarrow> MSugar \<Rightarrow> (cp_value list \<times> MSugar) option" where
  "cremerPople_furanose env mm s =
    (let ring = sugar_ring_elements s in
     if length ring < 5 then None
     else
       let stereo = get_stereochemistry env ring;
           reverse = lurd_reverse stereo (ring ! 4) ring
       in case project_ring (atom_list s) (atom_list s) (map (\<lambda>a. trim (name a)) (take 5 ring)) of
            None \<Rightarrow> None
          | Some pr \<Rightarrow>
             (let z5 = pr_z pr ! 4;
                  substituent = transform (shift_to (pr_centre pr)) (nz5_substituent env ring);
                  z5_substituent = dot (coord_orth substituent) (pr_normal pr);
                  p = furanose_parameters (pr_z pr);
                  a = stereo_anomer stereo reverse pr;
                  cpParams = [Num (p ! 0), Num (- 1), Num (p ! 1), Num (p ! 2), Num (- 1),
                              Anomer a, Num (z5 - z5_substituent)];
                  s' = (store_stereo stereo s)
                         \<lparr>sugar_centre := pr_centre pr,
                          sugar_cremer_pople_params :=
                            sugar_cremer_pople_params s @ [p ! 0, - 1, p ! 1],
                          sugar_anomer := anomer_string a,
                          sugar_handedness :=
                            handedness_of substituent (sugar_ring_elements s) z5 z5_substituent\<rparr>
              in Some (cpParams, s')))"

section \<open>The constructor\<close>

text \<open>\<^verbatim>\<open>MSugar::lookup_database\<close>: the first entry whose short name is the sugar's type.\<close>

fun lookup_database_from :: "sugar_database_entry list \<Rightarrow> string \<Rightarrow> nat \<Rightarrow> nat option" where
  "lookup_database_from [] nm i = None"
| "lookup_database_from (e # es) nm i =
     (if trim nm = trim (name_short e) then Some i else lookup_database_from es nm (i + 1))"

definition lookup_database :: "sugar_database_entry list \<Rightarrow> string \<Rightarrow> MSugar \<Rightarrow> bool \<times> MSugar" where
  "lookup_database db nm s =
    (case lookup_database_from db nm 0 of
       Some i \<Rightarrow> (True, s\<lparr>sugar_index := db_entry i, sugar_found_db := True\<rparr>)
     | None \<Rightarrow> (False, s\<lparr>sugar_index := db_not_found, sugar_found_db := False\<rparr>))"

definition database_entry :: "sugar_database_entry list \<Rightarrow> db_index \<Rightarrow> sugar_database_entry option" where
  "database_entry db i =
    (case i of db_entry k \<Rightarrow> (if k < length db then Some (db ! k) else None) | _ \<Rightarrow> None)"

text \<open>The five assignments that declare a sugar unsupported.\<close>

definition mark_unsupported :: "MSugar \<Rightarrow> MSugar" where
  "mark_unsupported s =
     s\<lparr>sugar_supported := False, sugar_sane := False,
       sugar_denomination := ''    unsupported    '',
       sugar_anomer := ''X'', sugar_handedness := ''X''\<rparr>"

text \<open>
  The loop over the ring-atom names of the database template. \<open>Returned\<close> is the
  \<^verbatim>\<open>return\<close> inside the loop, which leaves the constructor; \<open>Continue\<close> goes on
  with the next name.
\<close>

datatype ctor_flow = Returned MSugar | Continue MSugar

definition template_atom :: "string \<Rightarrow> MSugar \<Rightarrow> ctor_flow" where
  "template_atom b s =
    (let index_atom = lookup (atom_list s) b ANY in
     if index_atom = - 1 then Returned (mark_unsupported s)
     else if occupancy (atom_list s ! nat index_atom) < 1.0
             \<and> get_altconf (atom_list s ! nat index_atom) \<noteq> CHR '' '' then
       (let index_A = lookup (atom_list s) (trim b @ '' :A'') UNIQUE;
            index_AB = (if index_A = - 1 then lookup (atom_list s) (trim b @ '' :B'') UNIQUE
                        else index_A);
            s1 = (if index_A = - 1 then s else s\<lparr>sugar_alternate_confcode := '' :A''\<rparr>)
        in if index_AB = - 1 then Returned (mark_unsupported s1)
           else Continue (s1\<lparr>sugar_alternate_confcode := '' :B'',
                             sugar_ring_elements :=
                               sugar_ring_elements s1 @ [atom_list s ! nat index_AB]\<rparr>))
     else Continue (s\<lparr>sugar_ring_elements :=
                        sugar_ring_elements s @ [atom_list s ! nat index_atom]\<rparr>))"

fun template_ring :: "string list \<Rightarrow> MSugar \<Rightarrow> ctor_flow" where
  "template_ring [] s = Continue s"
| "template_ring (b # buffer) s =
     (case template_atom b s of
        Returned s' \<Rightarrow> Returned s'
      | Continue s' \<Rightarrow> template_ring buffer s')"

text \<open>
  The diagnostics at the end of the constructor: with a database entry, the
  chirality, anomer, bond and angle flags, each computed from the members set
  before (none of them is one of the flags), and the overall flag, set to true
  when the four flags and the ring flag are true; without an entry, the four flags
  are false.
\<close>

definition diagnostics :: "sugar_database_entry list \<Rightarrow> MSugar \<Rightarrow> MSugar option" where
  "diagnostics db s =
    (if sugar_found_db s then
       (case database_entry db (sugar_index s) of
          None \<Rightarrow> None
        | Some e \<Rightarrow>
           (let diag_chirality =
                  ((sugar_handedness s \<noteq> ''D'' \<and> handedness e \<noteq> ''D'')
                   \<or> (sugar_handedness s \<noteq> ''L'' \<and> handedness e \<noteq> ''L''));
                diag_anomer =
                  ((sugar_anomer s = ''alpha'' \<and> anomer e \<noteq> ''B'')
                   \<or> (sugar_anomer s = ''beta'' \<and> anomer e \<noteq> ''A''));
                diag_bonds_rmsd =
                  (if length (sugar_ring_elements s) = 5
                   then sugar_ring_bond_rmsd s < 0.040
                   else sugar_ring_bond_rmsd s < 0.035);
                diag_angles_rmsd =
                  (if length (sugar_ring_elements s) = 5
                   then sugar_ring_angle_rmsd s > 4.0 \<and> sugar_ring_angle_rmsd s < 7.5
                   else sugar_ring_angle_rmsd s < 4.0)
            in Some (s\<lparr>sugar_diag_chirality := diag_chirality,
                        sugar_diag_anomer := diag_anomer,
                        sugar_diag_bonds_rmsd := diag_bonds_rmsd,
                        sugar_diag_angles_rmsd := diag_angles_rmsd,
                        sugar_sane :=
                          (if diag_angles_rmsd \<and> diag_bonds_rmsd \<and> diag_anomer
                              \<and> diag_chirality \<and> sugar_diag_ring s
                           then True else sugar_sane s)\<rparr>)))
     else Some (s\<lparr>sugar_diag_anomer := False, sugar_diag_chirality := False,
                  sugar_diag_bonds_rmsd := False, sugar_diag_angles_rmsd := False\<rparr>))"

text \<open>
  The constructor from the point where the ring members are known, in three steps.
  \<open>classify_ring\<close>: the Cremer-Pople analysis and the conformation for a ring of
  five or six atoms, the unsupported marking for any other size; nothing leaves the
  constructor here. \<open>name_sugar\<close>: the denomination, from the name of the ring atom
  at position 1, the ring size, the anomer and the handedness. \<open>ring_analysis\<close>:
  both, then the examination of the ring and the diagnostics. A ring of fewer than
  two atoms has no atom at position 1.
\<close>

definition classify_ring :: "analysis_env \<Rightarrow> MAtom list \<Rightarrow> MSugar \<Rightarrow> MSugar option" where
  "classify_ring env mm s =
    (if length (sugar_ring_elements s) = 5 then
       map_option (\<lambda>(cp, s'). s'\<lparr>sugar_conformation :=
                                   conformationFuranose (sugar_cremer_pople_params s' ! 2)\<rparr>)
         (cremerPople_furanose env mm s)
     else if length (sugar_ring_elements s) = 6 then
       map_option (\<lambda>(cp, s'). s'\<lparr>sugar_conformation :=
                                   conformationPyranose (sugar_cremer_pople_params s' ! 1)
                                     (sugar_cremer_pople_params s' ! 2)\<rparr>)
         (cremerPople_pyranose env mm s)
     else Some (mark_unsupported s))"

definition name_sugar :: "MSugar \<Rightarrow> MSugar" where
  "name_sugar s1 =
    (let s2 = s1\<lparr>sugar_denomination :=
                  (if str_contains (trim (name (sugar_ring_elements s1 ! 1))) ''C1''
                   then ''aldo'' else ''keto'')\<rparr>;
         s3 = s2\<lparr>sugar_denomination :=
                  (if length (sugar_ring_elements s2) = 5
                   then sugar_denomination s2 @ ''furanose''
                   else sugar_denomination s2 @ ''pyranose'')\<rparr>
     in s3\<lparr>sugar_denomination :=
             sugar_anomer s3 @ ''-'' @ sugar_handedness s3 @ ''-'' @ sugar_denomination s3\<rparr>)"

definition ring_analysis ::
    "sugar_database_entry list \<Rightarrow> analysis_env \<Rightarrow> MAtom list \<Rightarrow> MSugar \<Rightarrow> MSugar option" where
  "ring_analysis db env mm s =
    (case classify_ring env mm s of
       None \<Rightarrow> None
     | Some s1 \<Rightarrow>
        if length (sugar_ring_elements s1) < 2 then None
        else
          (case examine_ring ((name_sugar s1)\<lparr>sugar_sane := False\<rparr>) of
             None \<Rightarrow> None
           | Some (ring_closes, s6) \<Rightarrow> diagnostics db (s6\<lparr>sugar_diag_ring := ring_closes\<rparr>)))"

text \<open>
  \<^verbatim>\<open>MSugar::MSugar(ml, mm, nb)\<close>. \<open>raw\<close> is the object before the body runs:
  its strings and vectors are empty, and its other members hold whatever the
  storage holds. The result is the constructed object, or nothing where the program
  reads a vector out of range.
\<close>

definition fresh_sugar :: "MSugar \<Rightarrow> MMonomer \<Rightarrow> MSugar" where
  "fresh_sugar raw mm =
     raw\<lparr>mm_type := mm_type mm, atom_list := atom_list mm,
         sugar_ring_elements := [], sugar_denomination := [], sugar_anomer := [],
         sugar_handedness := [], sugar_cremer_pople_params := [],
         sugar_ring_angles := [], sugar_ring_bonds := [],
         sugar_supported := True, sugar_index := db_entry 9999,
         sugar_alternate_confcode := '' ''\<rparr>"

definition MSugar_constructor ::
    "sugar_database_entry list \<Rightarrow> analysis_env \<Rightarrow> MSugar \<Rightarrow> MMonomer \<Rightarrow> MSugar option" where
  "MSugar_constructor db env raw mm =
    (let s0 = fresh_sugar raw mm;
         (found, s1) = lookup_database db (trim (mm_type s0)) s0;
         s2 = s1\<lparr>sugar_found_db := found\<rparr>
     in if sugar_found_db s2 then
          (case database_entry db (sugar_index s2) of
             None \<Rightarrow> None
           | Some e \<Rightarrow>
              (case template_ring (split_blank (trim (ring_atoms e))) s2 of
                 Returned s3 \<Rightarrow> Some s3
               | Continue s3 \<Rightarrow> ring_analysis db env (atom_list mm) s3))
        else ring_analysis db env (atom_list mm)
               (s2\<lparr>sugar_ring_elements := ringMembers env (atom_list s2)\<rparr>))"

section \<open>Vocabulary of the properties\<close>

text \<open>
  A rigid rotation about the origin: a matrix whose transpose is its inverse and
  whose determinant is 1, applied without translation.
\<close>

fun mat_det :: "Mat33 \<Rightarrow> real" where
  "mat_det (Mat33 r1 r2 r3) = dot r1 (cross r2 r3)"

fun mat_transpose :: "Mat33 \<Rightarrow> Mat33" where
  "mat_transpose (Mat33 (Vec3 a b c) (Vec3 d e f) (Vec3 g h i)) =
     Mat33 (Vec3 a d g) (Vec3 b e h) (Vec3 c f i)"

fun mat_mul :: "Mat33 \<Rightarrow> Mat33 \<Rightarrow> Mat33" where
  "mat_mul m (Mat33 (Vec3 a b c) (Vec3 d e f) (Vec3 g h i)) =
     mat_transpose (Mat33 (mat_vec m (Vec3 a d g)) (mat_vec m (Vec3 b e h)) (mat_vec m (Vec3 c f i)))"

definition is_rotation :: "Mat33 \<Rightarrow> bool" where
  "is_rotation m = (mat_mul (mat_transpose m) m = mat_identity \<and> mat_det m = 1)"

definition rotation_about_origin :: "Mat33 \<Rightarrow> RTop_orth" where
  "rotation_about_origin m = \<lparr>rot = m, trn = Vec3 0 0 0\<rparr>"

text \<open>
  The two ways a name of the database template can fare in the loop of the
  constructor. It fails when no atom has the name, or when the atom found has an
  occupancy below 1 and a non-blank alternate-conformation code and neither the
  ":A" nor the ":B" lookup finds an atom. It is resolved through the
  alternate-conformation lookup when the atom found has an occupancy below 1 and a
  non-blank code and one of the two lookups succeeds.
\<close>

definition needs_altconf :: "MAtom list \<Rightarrow> string \<Rightarrow> bool" where
  "needs_altconf atoms b =
    (lookup atoms b ANY \<noteq> - 1
     \<and> occupancy (atoms ! nat (lookup atoms b ANY)) < 1.0
     \<and> get_altconf (atoms ! nat (lookup atoms b ANY)) \<noteq> CHR '' '')"

definition template_fails :: "MAtom list \<Rightarrow> string \<Rightarrow> bool" where
  "template_fails atoms b =
    (lookup atoms b ANY = - 1
     \<or> (needs_altconf atoms b
        \<and> lookup atoms (trim b @ '' :A'') UNIQUE = - 1
        \<and> lookup atoms (trim b @ '' :B'') UNIQUE = - 1))"

definition resolved_through_altconf :: "MAtom list \<Rightarrow> string \<Rightarrow> bool" where
  "resolved_through_altconf atoms b =
    (needs_altconf atoms b
     \<and> (lookup atoms (trim b @ '' :A'') UNIQUE \<noteq> - 1
        \<or> lookup atoms (trim b @ '' :B'') UNIQUE \<noteq> - 1))"

text \<open>
  The object at the two points where the constructor starts to determine the ring:
  after a database hit at index \<open>i\<close>, and after a miss, with the ring the cycle
  search returned. \<open>flow_state\<close> is the object a round of the template loop ends
  with, whether the constructor returned there or not.
\<close>

definition found_sugar :: "MSugar \<Rightarrow> MMonomer \<Rightarrow> nat \<Rightarrow> MSugar" where
  "found_sugar raw mm i = (fresh_sugar raw mm)\<lparr>sugar_index := db_entry i, sugar_found_db := True\<rparr>"

definition unlisted_sugar :: "analysis_env \<Rightarrow> MSugar \<Rightarrow> MMonomer \<Rightarrow> MSugar" where
  "unlisted_sugar env raw mm =
     (fresh_sugar raw mm)\<lparr>sugar_index := db_not_found, sugar_found_db := False,
                          sugar_ring_elements := ringMembers env (atom_list mm)\<rparr>"

fun flow_state :: "ctor_flow \<Rightarrow> MSugar" where
  "flow_state (Returned s) = s"
| "flow_state (Continue s) = s"

text \<open>
  The element pairs for which \<^verbatim>\<open>bonded\<close> has a distance window of their own:
  C-C, C-N, C-O, C-H, N-C, N-H, O-C and O-H, the first element being the element of
  the first atom.
\<close>

definition has_dedicated_window :: "string \<Rightarrow> string \<Rightarrow> bool" where
  "has_dedicated_window e1 e2 =
    (if e1 = ''C'' then e2 = ''C'' \<or> e2 = ''N'' \<or> e2 = ''O'' \<or> e2 = ''H''
     else if e1 = ''N'' then e2 = ''C'' \<or> e2 = ''H''
     else if e1 = ''O'' then e2 = ''C'' \<or> e2 = ''H''
     else False)"

section \<open>Example structures\<close>

definition mk_atom :: "string \<Rightarrow> string \<Rightarrow> real \<Rightarrow> real \<Rightarrow> real \<Rightarrow> MAtom" where
  "mk_atom ident el x y z = \<lparr>atom_id = ident, element = el, coord_orth = Vec3 x y z, occupancy = 1\<rparr>"

text \<open>Single atoms on the x axis, for the distance windows.\<close>

definition example_C1 :: MAtom where "example_C1 = mk_atom '' C1 '' ''C'' 0 0 0"
definition example_H1 :: MAtom where "example_H1 = mk_atom '' H1 '' ''H'' 1 0 0"
definition example_S5 :: MAtom where "example_S5 = mk_atom '' S5 '' ''S'' 1.75 0 0"
definition example_C2_near :: MAtom where "example_C2_near = mk_atom '' C2 '' ''C'' 1 0 0"
definition example_C2 :: MAtom where "example_C2 = mk_atom '' C2 '' ''C'' 1.5 0 0"

text \<open>
  A glucopyranose in an ideal chair: the ring atoms lie 0.25 above and below
  their mean plane in turn, the hydroxyl oxygen O1 and the carbon C6 are equatorial.
\<close>

definition glc_C1 :: MAtom where "glc_C1 = mk_atom '' C1 '' ''C'' 0.7 1.2 0.25"
definition glc_C2 :: MAtom where "glc_C2 = mk_atom '' C2 '' ''C'' (- 0.7) 1.2 (- 0.25)"
definition glc_C3 :: MAtom where "glc_C3 = mk_atom '' C3 '' ''C'' (- 1.4) 0 0.25"
definition glc_C4 :: MAtom where "glc_C4 = mk_atom '' C4 '' ''C'' (- 0.7) (- 1.2) (- 0.25)"
definition glc_C5 :: MAtom where "glc_C5 = mk_atom '' C5 '' ''C'' 0.7 (- 1.2) 0.25"
definition glc_C6 :: MAtom where "glc_C6 = mk_atom '' C6 '' ''C'' 1.4 (- 2.4) 0"
definition glc_O1 :: MAtom where "glc_O1 = mk_atom '' O1 '' ''O'' 1.4 2.4 0"
definition glc_O5 :: MAtom where "glc_O5 = mk_atom '' O5 '' ''O'' 1.4 0 (- 0.25)"

definition glucose_atoms :: "MAtom list" where
  "glucose_atoms = [glc_C1, glc_C2, glc_C3, glc_C4, glc_C5, glc_C6, glc_O1, glc_O5]"

definition glucose_ring :: "MAtom list" where
  "glucose_ring = [glc_O5, glc_C1, glc_C2, glc_C3, glc_C4, glc_C5]"

definition glucose :: MMonomer where
  "glucose = \<lparr>mm_type = ''BGC'', atom_list = glucose_atoms\<rparr>"

text \<open>The same sugar with the carbon C1 modelled in two conformations.\<close>

definition glc_C1_A :: MAtom where
  "glc_C1_A = \<lparr>atom_id = '' C1 :A'', element = ''C'', coord_orth = Vec3 0.7 1.2 0.25, occupancy = 0.5\<rparr>"
definition glc_C1_B :: MAtom where
  "glc_C1_B = \<lparr>atom_id = '' C1 :B'', element = ''C'', coord_orth = Vec3 0.7 1.2 0.3, occupancy = 0.5\<rparr>"

definition disordered_glucose :: MMonomer where
  "disordered_glucose =
     \<lparr>mm_type = ''BGC'',
      atom_list = [glc_C1_A, glc_C1_B, glc_C2, glc_C3, glc_C4, glc_C5, glc_C6, glc_O1, glc_O5]\<rparr>"

text \<open>A five-membered ring and a four-membered ring, neither in the database.\<close>

definition fur_O4 :: MAtom where "fur_O4 = mk_atom '' O4 '' ''O'' 1.2 0 0"
definition fur_C1 :: MAtom where "fur_C1 = mk_atom '' C1 '' ''C'' 0.4 1.2 0.2"
definition fur_C2 :: MAtom where "fur_C2 = mk_atom '' C2 '' ''C'' (- 1.0) 0.7 (- 0.2)"
definition fur_C3 :: MAtom where "fur_C3 = mk_atom '' C3 '' ''C'' (- 1.0) (- 0.7) 0.2"
definition fur_C4 :: MAtom where "fur_C4 = mk_atom '' C4 '' ''C'' 0.4 (- 1.2) (- 0.2)"

definition furanose_ring :: "MAtom list" where
  "furanose_ring = [fur_O4, fur_C1, fur_C2, fur_C3, fur_C4]"

definition furanose :: MMonomer where
  "furanose = \<lparr>mm_type = ''XYZ'', atom_list = [fur_C1, fur_C2, fur_C3, fur_C4, fur_O4]\<rparr>"

definition oxt_O1 :: MAtom where "oxt_O1 = mk_atom '' O1 '' ''O'' 0 0 0"
definition oxt_C1 :: MAtom where "oxt_C1 = mk_atom '' C1 '' ''C'' 1.45 0 0"
definition oxt_C2 :: MAtom where "oxt_C2 = mk_atom '' C2 '' ''C'' 1.45 1.45 0"
definition oxt_C3 :: MAtom where "oxt_C3 = mk_atom '' C3 '' ''C'' 0 1.45 0"

definition oxetane_ring :: "MAtom list" where
  "oxetane_ring = [oxt_O1, oxt_C1, oxt_C2, oxt_C3]"

definition oxetane :: MMonomer where
  "oxetane = \<lparr>mm_type = ''OXT'', atom_list = [oxt_O1, oxt_C1, oxt_C2, oxt_C3]\<rparr>"

definition example_database :: "sugar_database_entry list" where
  "example_database =
     [\<lparr>name_short = ''BGC'', anomer = ''B'', handedness = ''D'', ring_atoms = ''O5 C1 C2 C3 C4 C5''\<rparr>,
      \<lparr>name_short = ''GLC'', anomer = ''A'', handedness = ''D'', ring_atoms = ''O5 C1 C2 C3 C4 C5''\<rparr>]"

text \<open>
  The surroundings of the examples: the spatial index returns every atom of the
  monomer, the cycle search returns the ring of the monomer at hand, the
  stereochemistry search returns C1 with O1 and C5 with C6, and the conversion to
  single precision changes nothing.
\<close>

definition example_env :: "MAtom list \<Rightarrow> MAtom list \<Rightarrow> analysis_env" where
  "example_env atoms ring =
     \<lparr>atoms_near = (\<lambda>c r. atoms), ringMembers = (\<lambda>a. ring),
      get_stereochemistry = (\<lambda>r. ((glc_C1, glc_O1), (glc_C5, glc_C6))),
      to_float = (\<lambda>x. x)\<rparr>"

text \<open>The storage of a sugar object before its constructor has run.\<close>

definition raw_sugar :: MSugar where
  "raw_sugar =
     \<lparr>mm_type = [], atom_list = [],
      sugar_supported = False, sugar_index = db_not_checked, sugar_alternate_confcode = [],
      sugar_found_db = False, sugar_ring_elements = [], sugar_sane = True,
      sugar_denomination = [], sugar_anomer = [], sugar_handedness = [],
      sugar_conformation = conf_unassigned, sugar_cremer_pople_params = [],
      sugar_centre = Vec3 0 0 0,
      sugar_anomeric_carbon = default_MAtom, sugar_anomeric_substituent = default_MAtom,
      sugar_configurational_carbon = default_MAtom,
      sugar_configurational_substituent = default_MAtom,
      sugar_diag_ring = True, sugar_diag_chirality = True, sugar_diag_anomer = True,
      sugar_diag_bonds_rmsd = True, sugar_diag_angles_rmsd = True,
      sugar_ring_angles = [], sugar_ring_bonds = [],
      sugar_ring_angle_rmsd = 0, sugar_ring_bond_rmsd = 0\<rparr>"

text \<open>
  The glucose with its surroundings, its ring coordinates, and the object the
  constructor has built when the six names of the template are resolved.
\<close>

definition glucose_env :: analysis_env where
  "glucose_env = example_env glucose_atoms glucose_ring"

definition glucose_coords :: "Vec3 list" where
  "glucose_coords = map coord_orth glucose_ring"

definition glucose_sugar :: MSugar where
  "glucose_sugar = (found_sugar raw_sugar glucose 0)\<lparr>sugar_ring_elements := glucose_ring\<rparr>"

definition furanose_sugar :: MSugar where
  "furanose_sugar = unlisted_sugar (example_env (atom_list furanose) furanose_ring) raw_sugar furanose"

text \<open>A rotation by the angle whose cosine is 0.6 about the z axis.\<close>

definition example_rotation :: Mat33 where
  "example_rotation = Mat33 (Vec3 0.6 (- 0.8) 0) (Vec3 0.8 0.6 0) (Vec3 0 0 1)"

text \<open>
  The surroundings of the five-membered and of the four-membered ring, and the
  disordered glucose: its atoms, the ring its template resolves to (the carbon C1
  in conformation A), its surroundings and the object the constructor has built
  when the six names of the template are resolved.
\<close>

definition furanose_env :: analysis_env where
  "furanose_env = example_env (atom_list furanose) furanose_ring"

definition oxetane_env :: analysis_env where
  "oxetane_env = example_env (atom_list oxetane) oxetane_ring"

definition disordered_atoms :: "MAtom list" where
  "disordered_atoms = [glc_C1_A, glc_C1_B, glc_C2, glc_C3, glc_C4, glc_C5, glc_C6, glc_O1, glc_O5]"

definition disordered_ring :: "MAtom list" where
  "disordered_ring = [glc_O5, glc_C1_A, glc_C2, glc_C3, glc_C4, glc_C5]"

definition disordered_env :: analysis_env where
  "disordered_env = example_env disordered_atoms disordered_ring"

definition disordered_sugar :: MSugar where
  "disordered_sugar = (found_sugar raw_sugar disordered_glucose 0)
      \<lparr>sugar_alternate_confcode := '' :B'', sugar_ring_elements := disordered_ring\<rparr>"

section \<open>Properties of the Bond Oracle\<close>

lemma coord_length_commute: "coord_length a b = coord_length b a"
  by (cases a; cases b) (simp add: coord_length_def algebra_simps)

lemma coord_length_axis: "coord_length (Vec3 a 0 0) (Vec3 b 0 0) = \<bar>a - b\<bar>"
  by (simp add: coord_length_def)

lemma trim_C [simp]: "trim ''C'' = ''C''" and trim_H [simp]: "trim ''H'' = ''H''"
  and trim_S [simp]: "trim ''S'' = ''S''" and trim_O [simp]: "trim ''O'' = ''O''"
  by (simp_all add: trim_def is_blank_def)

text \<open>
  Between carbon, nitrogen and oxygen the oracle does not depend on the order of
  its arguments.
\<close>

lemma bonded_sym_CNO:
  assumes "trim (element a) \<in> {''C'', ''N'', ''O''}" "trim (element b) \<in> {''C'', ''N'', ''O''}"
  shows "bonded a b = bonded b a"
  using assms by (auto simp: bonded_def Let_def coord_length_commute)

text \<open>
  C4. The claim is that \<open>bonded a b = bonded b a\<close> for all atoms, and that a pair
  without a window of its own is judged by the window 1.20 to 1.80 in either order.
  The function does not have this property. A carbon and a hydrogen 1.0 apart are
  bonded when the carbon is the first argument (window 0.96 to 1.14) and not bonded
  when the hydrogen is (the first atom is none of C, N, O, so the window 1.20 to
  1.80 applies). A sulfur and a carbon 1.75 apart are bonded when the sulfur is
  first (window 1.20 to 1.80) and not bonded when the carbon is (no branch for
  sulfur under carbon: the final \<^verbatim>\<open>return false\<close>).
\<close>

theorem bonded_order_dependent:
  "bonded example_C1 example_H1 = True \<and> bonded example_H1 example_C1 = False
   \<and> bonded example_S5 example_C1 = True \<and> bonded example_C1 example_S5 = False"
  by (simp add: bonded_def example_C1_def example_H1_def example_S5_def mk_atom_def
        coord_length_axis)

section \<open>Properties of the Conformation Classifier\<close>

text \<open>The pyranose classification assigns a code to every pair of angles.\<close>

lemma pyranose_total: "conformationPyranose phi theta \<noteq> conf_unassigned"
  unfolding conformationPyranose_def by (simp; linarith)

text \<open>
  The furanose classification compares with strict inequalities on both sides of
  every sector, so each of the twenty sector boundaries 4.5, 13.5, ..., 175.5 is
  in no sector.
\<close>

lemma furanose_boundaries_unassigned:
  "k < 20 \<Longrightarrow> conformationFuranose (4.5 + 9 * real k) = conf_unassigned"
  unfolding conformationFuranose_def by auto

lemma furanose_assigned_off_boundaries:
  assumes h: "\<And>k. k < 20 \<Longrightarrow> theta \<noteq> 4.5 + 9 * real k"
  shows "conformationFuranose theta \<noteq> conf_unassigned"
proof -
  have b: "theta \<noteq> 4.5" "theta \<noteq> 13.5" "theta \<noteq> 22.5" "theta \<noteq> 31.5" "theta \<noteq> 40.5"
    "theta \<noteq> 49.5" "theta \<noteq> 58.5" "theta \<noteq> 67.5" "theta \<noteq> 76.5" "theta \<noteq> 85.5"
    "theta \<noteq> 94.5" "theta \<noteq> 103.5" "theta \<noteq> 112.5" "theta \<noteq> 121.5" "theta \<noteq> 130.5"
    "theta \<noteq> 139.5" "theta \<noteq> 148.5" "theta \<noteq> 157.5" "theta \<noteq> 166.5" "theta \<noteq> 175.5"
    using h[of 0] h[of 1] h[of 2] h[of 3] h[of 4] h[of 5] h[of 6] h[of 7] h[of 8] h[of 9]
      h[of 10] h[of 11] h[of 12] h[of 13] h[of 14] h[of 15] h[of 16] h[of 17] h[of 18] h[of 19]
    by simp_all
  show ?thesis
    unfolding conformationFuranose_def using b by (auto simp: not_less)
qed

text \<open>
  C3. The claim is that both classifications are total, every boundary value
  falling into the sector below it, so that no angle is left with the unnamed
  default code. For the pyranose function this is \<open>pyranose_total\<close>. The furanose
  function leaves the boundary value 4.5 (and every other sector boundary) with
  the initial value of \<^verbatim>\<open>confCode\<close>.
\<close>

theorem furanose_boundary_unassigned:
  "conformationFuranose 4.5 = conf_unassigned"
  by (simp add: conformationFuranose_def)

section \<open>Properties of the bonded neighbours of the cycle search\<close>

text \<open>
  Every window of an element pair lies inside the window of the cycle search; the
  window 1.2 to 1.8 for a first atom of another element does not.
\<close>

lemma bonded_dedicated_in_window:
  assumes "has_dedicated_window (trim (element ma)) (trim (element a))" "bonded ma a"
  shows "0.5 < coord_length (coord_orth a) (coord_orth ma)
         \<and> coord_length (coord_orth a) (coord_orth ma) < 1.61"
  using assms
  by (auto simp: bonded_def has_dedicated_window_def Let_def coord_length_commute split: if_splits)

lemma unknown_window_outside:
  "bonded example_S5 example_C1
   \<and> example_C1 \<notin> set (findBonded [example_S5, example_C1] example_S5 [])"
  by (simp add: findBonded_def findBonded_keeps_def bonded_def example_C1_def
        example_S5_def mk_atom_def coord_length_axis get_altconf_def)

text \<open>
  C5, as the claim states it, fails: two carbons 1.0 apart are bonded neighbours
  for \<open>findBonded\<close> and are not bonded for the oracle, whose carbon-carbon window
  starts at 1.18.
\<close>

theorem findBonded_differs_from_oracle:
  "example_C2_near \<in> set (findBonded [example_C1, example_C2_near] example_C1 [])
   \<and> \<not> bonded example_C1 example_C2_near"
  by (simp add: findBonded_def findBonded_keeps_def bonded_def example_C1_def
        example_C2_near_def mk_atom_def coord_length_axis get_altconf_def)

text \<open>
  C5, amended. \<open>findBonded\<close> returns an atom of the monomer exactly when its
  distance to \<open>ma\<close> is strictly between 0.5 and 1.61, the arc is not yet visited
  and the alternate-conformation codes agree, whatever the two elements are. Every
  pair that the oracle accepts through the window of its element pair (C-C, C-N,
  C-O, C-H, N-C, N-H, O-C, O-H) lies inside that distance window; the two
  predicates are not equal.
\<close>

theorem findBonded_distance_window:
  "(a \<in> set (findBonded atoms ma background) \<longleftrightarrow>
      a \<in> set atoms
      \<and> 0.5 < coord_length (coord_orth a) (coord_orth ma)
      \<and> coord_length (coord_orth a) (coord_orth ma) < 1.61
      \<and> \<not> lookup_visited background (ma, a)
      \<and> get_altconf ma = get_altconf a)
   \<and> (has_dedicated_window (trim (element ma)) (trim (element a)) \<longrightarrow> bonded ma a \<longrightarrow>
        0.5 < coord_length (coord_orth a) (coord_orth ma)
        \<and> coord_length (coord_orth a) (coord_orth ma) < 1.61)"
  using bonded_dedicated_in_window [of ma a]
  by (auto simp: findBonded_def findBonded_keeps_def Let_def)

theorem findBonded_distance_window_witness:
  "example_C2 \<in> set (findBonded [example_C1, example_C2] example_C1 [])
   \<and> has_dedicated_window (trim (element example_C1)) (trim (element example_C2))
   \<and> bonded example_C1 example_C2
   \<and> 0.5 < coord_length (coord_orth example_C2) (coord_orth example_C1)
   \<and> coord_length (coord_orth example_C2) (coord_orth example_C1) < 1.61"
  using findBonded_distance_window [of example_C2 "[example_C1, example_C2]" example_C1 "[]"]
  by (simp add: bonded_def has_dedicated_window_def example_C1_def example_C2_def mk_atom_def
        coord_length_axis get_altconf_def)

section \<open>Lookups by name and the projection of a ring\<close>

lemma lookup_from_range:
  "lookup_from xs sid mode k = - 1 \<or> (k \<le> lookup_from xs sid mode k \<and> lookup_from xs sid mode k < k + int (length xs))"
  if "0 \<le> k"
  using that
proof (induction xs arbitrary: k)
  case Nil
  then show ?case by simp
next
  case (Cons x xs)
  from Cons.IH [of "k + 1"] Cons.prems show ?case by auto
qed

lemma lookup_range:
  "lookup atoms str mode = - 1 \<or> (0 \<le> lookup atoms str mode \<and> lookup atoms str mode < int (length atoms))"
  using lookup_from_range [of 0 atoms "id_tidy str" mode] by (simp add: lookup_def)

lemma atom_id_transform [simp]: "atom_id (transform rt a) = atom_id a"
  by (simp add: transform_def)

lemma name_transform [simp]: "name (transform rt a) = name a"
  by (simp add: name_def)

lemma lookup_from_map_transform [simp]:
  "lookup_from (map (transform rt) xs) sid mode k = lookup_from xs sid mode k"
  by (induction xs arbitrary: k) simp_all

lemma lookup_map_transform [simp]:
  "lookup (map (transform rt) atoms) str mode = lookup atoms str mode"
  by (simp add: lookup_def)

lemma named_coord_map_transform:
  "named_coord (map (transform rt) atoms) nz = map_option (rtop_apply rt) (named_coord atoms nz)"
  by (auto simp: named_coord_def atom_at_def transform_def nat_less_iff)

lemma named_coord_Some_iff:
  "(\<exists>c. named_coord atoms nz = Some c) \<longleftrightarrow> lookup atoms nz ANY \<noteq> - 1"
  using lookup_range [of atoms nz ANY] by (auto simp: named_coord_def atom_at_def)

lemma those_map_length: "those (map f xs) = Some ys \<Longrightarrow> length ys = length xs"
  by (induction xs arbitrary: ys) (auto split: option.splits)

lemma those_map_nth: "those (map f xs) = Some ys \<Longrightarrow> i < length xs \<Longrightarrow> f (xs ! i) = Some (ys ! i)"
proof (induction xs arbitrary: ys i)
  case Nil then show ?case by simp
next
  case (Cons x xs)
  then show ?case by (cases i) (auto split: option.splits)
qed

lemma those_map_Some:
  "(\<forall>x\<in>set xs. f x \<noteq> None) \<Longrightarrow> \<exists>ys. those (map f xs) = Some ys"
  by (induction xs) (auto split: option.splits)

lemma those_map_comp_Some:
  "those (map f xs) = Some ys \<Longrightarrow> those (map (\<lambda>x. map_option g (f x)) xs) = Some (map g ys)"
  by (induction xs arbitrary: ys) (auto split: option.splits)

lemma those_map_None:
  "those (map f xs) = None \<Longrightarrow> those (map (\<lambda>x. map_option g (f x)) xs) = None"
  by (induction xs) (auto split: option.splits)

lemma project_ring_length:
  "project_ring own mm nz = Some pr \<Longrightarrow> length (pr_z pr) = length nz"
  by (auto simp: project_ring_def Let_def split: option.splits dest: those_map_length)

lemma project_ring_Some:
  assumes "\<forall>n\<in>set nz. lookup own n ANY \<noteq> - 1" "\<forall>n\<in>set nz. lookup mm n ANY \<noteq> - 1"
  shows "\<exists>pr. project_ring own mm nz = Some pr"
proof -
  from assms(1) have "\<forall>n\<in>set nz. named_coord own n \<noteq> None"
    using named_coord_Some_iff by fastforce
  then obtain cs where cs: "those (map (named_coord own) nz) = Some cs"
    using those_map_Some by blast
  have "\<forall>n\<in>set nz. named_coord (map (transform (shift_to (centre_of cs (real (length nz))))) mm) n \<noteq> None"
    using assms(2) named_coord_Some_iff [of mm] by (auto simp: named_coord_map_transform)
  then obtain ps where "those (map (named_coord (map (transform (shift_to (centre_of cs (real (length nz))))) mm)) nz) = Some ps"
    using those_map_Some by blast
  with cs show ?thesis by (simp add: project_ring_def Let_def)
qed

section \<open>Rigid rotations\<close>

text \<open>
  A rotation commutes with the sums and the scalings of the mean-plane
  construction, keeps scalar products, and turns the mean-plane normal with the
  atoms.
\<close>

lemma mat_vec_vadd: "mat_vec m (vadd u v) = vadd (mat_vec m u) (mat_vec m v)"
  by (cases m rule: mat_transpose.cases; cases u; cases v) (simp add: algebra_simps)

lemma mat_vec_vsub: "mat_vec m (vsub u v) = vsub (mat_vec m u) (mat_vec m v)"
  by (cases m rule: mat_transpose.cases; cases u; cases v) (simp add: algebra_simps)

lemma mat_vec_vscale: "mat_vec m (vscale v k) = vscale (mat_vec m v) k"
  by (cases m rule: mat_transpose.cases; cases v) (simp add: algebra_simps)

lemma mat_vec_vdiv: "mat_vec m (vdiv v k) = vdiv (mat_vec m v) k"
  by (cases m rule: mat_transpose.cases; cases v) (simp add: vdiv_def algebra_simps add_divide_distrib)

lemma mat_vec_zero [simp]: "mat_vec m (Vec3 0 0 0) = Vec3 0 0 0"
  by (cases m rule: mat_transpose.cases) simp

lemma mat_identity_vec [simp]: "mat_vec mat_identity v = v"
  by (cases v) (simp add: mat_identity_def)

lemma rotation_preserves_dot:
  assumes "is_rotation m"
  shows "dot (mat_vec m u) (mat_vec m v) = dot u v"
proof (cases m rule: mat_transpose.cases)
  case (1 a b c d e f g h i)
  obtain u1 u2 u3 where u: "u = Vec3 u1 u2 u3" by (cases u)
  obtain v1 v2 v3 where v: "v = Vec3 v1 v2 v3" by (cases v)
  from assms 1 have o:
    "a * a + d * d + g * g = 1" "b * b + e * e + h * h = 1" "c * c + f * f + i * i = 1"
    "a * b + d * e + g * h = 0" "a * c + d * f + g * i = 0" "b * c + e * f + h * i = 0"
    by (simp_all add: is_rotation_def mat_identity_def algebra_simps)
  have "dot (mat_vec m u) (mat_vec m v)
      = (a * a + d * d + g * g) * (u1 * v1) + (b * b + e * e + h * h) * (u2 * v2)
        + (c * c + f * f + i * i) * (u3 * v3)
        + (a * b + d * e + g * h) * (u1 * v2 + u2 * v1)
        + (a * c + d * f + g * i) * (u1 * v3 + u3 * v1)
        + (b * c + e * f + h * i) * (u2 * v3 + u3 * v2)"
    by (simp add: 1 u v algebra_simps)
  also have "\<dots> = dot u v" by (simp add: o u v)
  finally show ?thesis .
qed

lemma triple_product_mat:
  "dot (mat_vec m p) (cross (mat_vec m a) (mat_vec m b)) = mat_det m * dot p (cross a b)"
  by (cases m rule: mat_transpose.cases; cases p; cases a; cases b) (simp add: algebra_simps)

lemma cross_norm: "dot (cross a b) (cross a b) = dot a a * dot b b - (dot a b)\<^sup>2"
  by (cases a; cases b) (simp add: power2_eq_square algebra_simps)

lemma dot_vscale_right: "dot p (vscale v k) = k * dot p v"
  by (cases p; cases v) (simp add: algebra_simps)

lemma rotation_preserves_projection:
  assumes "is_rotation m"
  shows "dot (mat_vec m p) (unit (cross (mat_vec m a) (mat_vec m b))) = dot p (unit (cross a b))"
proof -
  have n: "dot (cross (mat_vec m a) (mat_vec m b)) (cross (mat_vec m a) (mat_vec m b))
           = dot (cross a b) (cross a b)"
    by (simp add: cross_norm rotation_preserves_dot [OF assms])
  from assms have "mat_det m = 1" by (simp add: is_rotation_def)
  then show ?thesis
    by (simp add: unit_def dot_vscale_right n triple_product_mat)
qed

lemma those_map_map_option:
  "those (map (\<lambda>x. map_option g (f x)) xs) = map_option (map g) (those (map f xs))"
proof (induction xs)
  case Nil
  then show ?case by simp
next
  case (Cons a xs)
  then show ?case by (cases "f a"; cases "those (map f xs)") simp_all
qed

lemma foldl_vadd_mat_vec:
  "foldl vadd (mat_vec m acc) (map (mat_vec m) vs) = mat_vec m (foldl vadd acc vs)"
  by (induction vs arbitrary: acc) (simp_all add: mat_vec_vadd [symmetric])

lemma foldl_vadd_mat_vec_zero:
  "foldl vadd (Vec3 0 0 0) (map (mat_vec m) vs) = mat_vec m (foldl vadd (Vec3 0 0 0) vs)"
  using foldl_vadd_mat_vec [of m "Vec3 0 0 0" vs] by simp

lemma weighted_sum_mat_vec:
  "weighted_sum f (map (mat_vec m) ps) = mat_vec m (weighted_sum f ps)"
proof -
  have eq: "map (\<lambda>j. vscale (map (mat_vec m) ps ! j) (f (2 * pi * real j / real (length ps)))) [0..<length ps]
      = map (mat_vec m) (map (\<lambda>j. vscale (ps ! j) (f (2 * pi * real j / real (length ps)))) [0..<length ps])"
    by (simp add: mat_vec_vscale)
  show ?thesis
    unfolding weighted_sum_def length_map eq by (rule foldl_vadd_mat_vec_zero)
qed

lemma centre_of_mat_vec: "centre_of (map (mat_vec m) cs) k = mat_vec m (centre_of cs k)"
  by (simp add: centre_of_def mat_vec_vdiv foldl_vadd_mat_vec_zero)

lemma vadd_zero [simp]: "vadd v (Vec3 0 0 0) = v"
  by (cases v) simp

lemma rtop_rotation: "rtop_apply (rotation_about_origin m) = mat_vec m"
  by (rule ext) (simp add: rtop_apply_def rotation_about_origin_def)

lemma rtop_shift: "rtop_apply (shift_to c) = (\<lambda>v. vsub v c)"
proof (rule ext)
  fix v show "rtop_apply (shift_to c) v = vsub v c"
    by (cases v; cases c) (simp add: rtop_apply_def shift_to_def)
qed

lemma named_coord_rotate:
  "named_coord (map (transform (rotation_about_origin m)) atoms)
   = (\<lambda>nz. map_option (mat_vec m) (named_coord atoms nz))"
  by (rule ext) (simp add: named_coord_map_transform rtop_rotation)

lemma named_coord_shift_rotate:
  "named_coord (map (transform (shift_to (mat_vec m c))) (map (transform (rotation_about_origin m)) mm))
   = (\<lambda>nz. map_option (mat_vec m) (named_coord (map (transform (shift_to c)) mm) nz))"
  unfolding named_coord_map_transform option.map_comp rtop_rotation rtop_shift
  by (rule ext) (simp add: comp_def mat_vec_vsub)

lemma mean_plane_projection_rotation:
  assumes "is_rotation m"
  shows "map (\<lambda>p. dot p (mean_plane_normal (map (mat_vec m) ps))) (map (mat_vec m) ps)
         = map (\<lambda>p. dot p (mean_plane_normal ps)) ps"
  by (simp add: mean_plane_normal_def weighted_sum_mat_vec rotation_preserves_projection [OF assms] comp_def)

lemma project_ring_rotation:
  assumes "is_rotation m"
  shows "map_option pr_z (project_ring (map (transform (rotation_about_origin m)) own)
                              (map (transform (rotation_about_origin m)) mm) nz)
         = map_option pr_z (project_ring own mm nz)"
proof (cases "those (map (named_coord own) nz)")
  case None
  then show ?thesis
    unfolding project_ring_def named_coord_rotate those_map_map_option by simp
next
  case (Some cs)
  let ?c = "centre_of cs (real (length nz))"
  show ?thesis
  proof (cases "those (map (named_coord (map (transform (shift_to ?c)) mm)) nz)")
    case None
    with Some show ?thesis
      unfolding project_ring_def named_coord_rotate those_map_map_option
      by (simp add: centre_of_mat_vec named_coord_shift_rotate those_map_map_option del: map_map)
  next
    case ps: (Some ps)
    with Some show ?thesis
      unfolding project_ring_def named_coord_rotate those_map_map_option
      using mean_plane_projection_rotation [OF assms, of ps]
      by (simp add: centre_of_mat_vec named_coord_shift_rotate those_map_map_option Let_def del: map_map)
  qed
qed

section \<open>Properties of the Cremer-Pople Analyzer\<close>

text \<open>
  Both functions return when the ring has the atoms they read and each of them is
  found by name.
\<close>

lemma cremerPople_pyranose_Some:
  assumes "length (sugar_ring_elements s) = 6"
    and "\<forall>a\<in>set (sugar_ring_elements s). lookup (atom_list s) (trim (name a)) ANY \<noteq> - 1"
    and "\<forall>a\<in>set (sugar_ring_elements s). lookup mm (trim (name a)) ANY \<noteq> - 1"
  shows "\<exists>r. cremerPople_pyranose env mm s = Some r"
proof -
  from assms obtain pr where
    "project_ring (atom_list s) mm (map (\<lambda>a. trim (name a)) (take 6 (sugar_ring_elements s))) = Some pr"
    using project_ring_Some [of "map (\<lambda>a. trim (name a)) (take 6 (sugar_ring_elements s))" "atom_list s" mm]
    by auto
  with assms(1) show ?thesis
    by (simp add: cremerPople_pyranose_def Let_def)
qed

lemma cremerPople_furanose_Some:
  assumes "length (sugar_ring_elements s) = 5"
    and "\<forall>a\<in>set (sugar_ring_elements s). lookup (atom_list s) (trim (name a)) ANY \<noteq> - 1"
  shows "\<exists>r. cremerPople_furanose env mm s = Some r"
proof -
  from assms obtain pr where
    "project_ring (atom_list s) (atom_list s)
       (map (\<lambda>a. trim (name a)) (take 5 (sugar_ring_elements s))) = Some pr"
    using project_ring_Some [of "map (\<lambda>a. trim (name a)) (take 5 (sugar_ring_elements s))"
        "atom_list s" "atom_list s"]
    by auto
  with assms(1) show ?thesis
    by (simp add: cremerPople_furanose_def Let_def)
qed

lemma pyranose_parameters_components:
  "pyranose_parameters float z ! 0
     = sqrt ((z ! 0)\<^sup>2 + (z ! 1)\<^sup>2 + (z ! 2)\<^sup>2 + (z ! 3)\<^sup>2 + (z ! 4)\<^sup>2 + (z ! 5)\<^sup>2)"
  "pyranose_parameters float z ! 4
     = sqrt (1 / 6) * (z ! 0 + z ! 2 + z ! 4 - z ! 1 - z ! 3 - z ! 5)"
  "pyranose_parameters float z ! 2
     = arccos (pyranose_parameters float z ! 4 / pyranose_parameters float z ! 0) * (180 / pi)"
  "pyranose_parameters float z ! 3
     = pyranose_parameters float z ! 0
       * sin (arccos (pyranose_parameters float z ! 4 / pyranose_parameters float z ! 0))"
  by (simp_all add: pyranose_parameters_def Let_def algebra_simps)

lemma cremerPople_pyranose_amplitude:
  "map_option (\<lambda>r. fst r ! 0) (cremerPople_pyranose env mm s)
   = (if length (sugar_ring_elements s) < 6 then None
      else map_option (\<lambda>pr. Num (sqrt ((pr_z pr ! 0)\<^sup>2 + (pr_z pr ! 1)\<^sup>2 + (pr_z pr ! 2)\<^sup>2
                                      + (pr_z pr ! 3)\<^sup>2 + (pr_z pr ! 4)\<^sup>2 + (pr_z pr ! 5)\<^sup>2)))
             (project_ring (atom_list s) mm (map (\<lambda>a. trim (name a)) (take 6 (sugar_ring_elements s)))))"
  by (simp add: cremerPople_pyranose_def Let_def pyranose_parameters_components(1) split: option.splits)

lemma map_option_eq_via:
  assumes "map_option f x = map_option f y"
  shows "map_option (\<lambda>v. g (f v)) x = map_option (\<lambda>v. g (f v)) y"
  using assms by (cases x; cases y) simp_all

lemma ring_names_rotate:
  "map (\<lambda>a. trim (name a)) (take k (map (transform rt) ring)) = map (\<lambda>a. trim (name a)) (take k ring)"
  by (simp add: take_map comp_def)

text \<open>
  C9. Let \<open>m\<close> be a rotation matrix (its transpose is its inverse, its determinant
  is 1) applied about the origin to every atom before the centre of the ring is
  computed. The sum of the squared projections of the ring atoms on the mean-plane
  normal is the same as for the unrotated atoms, and so is the total puckering
  amplitude, the first entry of the vector \<^verbatim>\<open>cremerPople_pyranose\<close> returns;
  where the unrotated computation has no result the rotated one has none. The
  coordinates are real numbers.
\<close>

theorem amplitude_rotation_invariant:
  assumes "is_rotation m"
  shows "map_option (\<lambda>pr. \<Sum>z\<leftarrow>pr_z pr. z\<^sup>2)
           (project_ring (map (transform (rotation_about_origin m)) own)
              (map (transform (rotation_about_origin m)) mm) nz)
         = map_option (\<lambda>pr. \<Sum>z\<leftarrow>pr_z pr. z\<^sup>2) (project_ring own mm nz)
       \<and> map_option (\<lambda>r. fst r ! 0)
           (cremerPople_pyranose env' (map (transform (rotation_about_origin m)) mm)
              (s\<lparr>atom_list := map (transform (rotation_about_origin m)) (atom_list s),
                 sugar_ring_elements := map (transform (rotation_about_origin m)) (sugar_ring_elements s)\<rparr>))
         = map_option (\<lambda>r. fst r ! 0) (cremerPople_pyranose env mm s)"
proof
  show "map_option (\<lambda>pr. \<Sum>z\<leftarrow>pr_z pr. z\<^sup>2)
           (project_ring (map (transform (rotation_about_origin m)) own)
              (map (transform (rotation_about_origin m)) mm) nz)
         = map_option (\<lambda>pr. \<Sum>z\<leftarrow>pr_z pr. z\<^sup>2) (project_ring own mm nz)"
    using map_option_eq_via [OF project_ring_rotation [OF assms, of own mm nz], of "\<lambda>zs. \<Sum>z\<leftarrow>zs. z\<^sup>2"]
    by simp
next
  let ?nz = "map (\<lambda>a. trim (name a)) (take 6 (sugar_ring_elements s))"
  have "map_option (\<lambda>pr. Num (sqrt ((pr_z pr ! 0)\<^sup>2 + (pr_z pr ! 1)\<^sup>2 + (pr_z pr ! 2)\<^sup>2
                                      + (pr_z pr ! 3)\<^sup>2 + (pr_z pr ! 4)\<^sup>2 + (pr_z pr ! 5)\<^sup>2)))
          (project_ring (map (transform (rotation_about_origin m)) (atom_list s))
              (map (transform (rotation_about_origin m)) mm) ?nz)
     = map_option (\<lambda>pr. Num (sqrt ((pr_z pr ! 0)\<^sup>2 + (pr_z pr ! 1)\<^sup>2 + (pr_z pr ! 2)\<^sup>2
                                      + (pr_z pr ! 3)\<^sup>2 + (pr_z pr ! 4)\<^sup>2 + (pr_z pr ! 5)\<^sup>2)))
          (project_ring (atom_list s) mm ?nz)"
    using map_option_eq_via [OF project_ring_rotation [OF assms, of "atom_list s" mm ?nz],
        of "\<lambda>zs. Num (sqrt ((zs ! 0)\<^sup>2 + (zs ! 1)\<^sup>2 + (zs ! 2)\<^sup>2 + (zs ! 3)\<^sup>2 + (zs ! 4)\<^sup>2 + (zs ! 5)\<^sup>2))"]
    by simp
  then show "map_option (\<lambda>r. fst r ! 0)
           (cremerPople_pyranose env' (map (transform (rotation_about_origin m)) mm)
              (s\<lparr>atom_list := map (transform (rotation_about_origin m)) (atom_list s),
                 sugar_ring_elements := map (transform (rotation_about_origin m)) (sugar_ring_elements s)\<rparr>))
         = map_option (\<lambda>r. fst r ! 0) (cremerPople_pyranose env mm s)"
    unfolding cremerPople_pyranose_amplitude by (simp add: ring_names_rotate)
qed

lemma project_ring_meaning:
  assumes "project_ring own mm nz = Some pr" "i < length nz"
  shows "\<exists>c. named_coord mm (nz ! i) = Some c
             \<and> pr_z pr ! i = dot (vsub c (pr_centre pr)) (pr_normal pr)"
proof -
  from assms(1) obtain cs ps where
    cs: "those (map (named_coord own) nz) = Some cs"
    and ps: "those (map (named_coord (map (transform (shift_to (centre_of cs (real (length nz))))) mm)) nz) = Some ps"
    and pr: "pr = \<lparr>pr_centre = centre_of cs (real (length nz)), pr_normal = mean_plane_normal ps,
                   pr_z = map (\<lambda>p. dot p (mean_plane_normal ps)) ps\<rparr>"
    by (auto simp: project_ring_def Let_def split: option.splits)
  from those_map_nth [OF ps assms(2)]
  have "named_coord (map (transform (shift_to (centre_of cs (real (length nz))))) mm) (nz ! i) = Some (ps ! i)" .
  then obtain c where c: "named_coord mm (nz ! i) = Some c" and pi: "ps ! i = vsub c (centre_of cs (real (length nz)))"
    by (auto simp: named_coord_map_transform rtop_shift)
  from those_map_length [OF ps] assms(2) have "i < length ps" by simp
  with c pi pr show ?thesis by simp
qed

text \<open>
  C8. \<^verbatim>\<open>cremerPople_pyranose\<close> returns for a ring of six atoms that are found by
  name (\<open>cremerPople_pyranose_Some\<close>). When it returns, the six values \<open>z1, ..., z6\<close> are
  the scalar products of the mean-plane normal with the coordinates of the six ring
  atoms, each translated by the centre of the ring, and the returned vector holds
  the amplitude \<open>sqrt (z1\<^sup>2 + ... + z6\<^sup>2)\<close> at index 0, \<open>q3 = sqrt (1/6) * (z1 + z3 + z5 - z2 - z4 - z6)\<close>
  at index 4, \<open>theta = arccos (q3 / amplitude)\<close> in degrees at index 2 and
  \<open>q2 = amplitude * sin theta\<close> at index 3.
\<close>

theorem pyranose_puckering_parameters:
  assumes "cremerPople_pyranose env mm s = Some (cp, s')"
  shows "\<exists>pr. project_ring (atom_list s) mm
                (map (\<lambda>a. trim (name a)) (take 6 (sugar_ring_elements s))) = Some pr
     \<and> length (pr_z pr) = 6
     \<and> (\<forall>i<6. \<exists>c. named_coord mm (trim (name (sugar_ring_elements s ! i))) = Some c
              \<and> pr_z pr ! i = dot (vsub c (pr_centre pr)) (pr_normal pr))
     \<and> (let z1 = pr_z pr ! 0; z2 = pr_z pr ! 1; z3 = pr_z pr ! 2;
             z4 = pr_z pr ! 3; z5 = pr_z pr ! 4; z6 = pr_z pr ! 5;
             amplitude = sqrt (z1\<^sup>2 + z2\<^sup>2 + z3\<^sup>2 + z4\<^sup>2 + z5\<^sup>2 + z6\<^sup>2);
             q3 = sqrt (1 / 6) * (z1 + z3 + z5 - z2 - z4 - z6);
             theta = arccos (q3 / amplitude)
         in cp ! 0 = Num amplitude
            \<and> cp ! 4 = Num q3
            \<and> cp ! 2 = Num (theta * (180 / pi))
            \<and> cp ! 3 = Num (amplitude * sin theta))"
proof -
  let ?nz = "map (\<lambda>a. trim (name a)) (take 6 (sugar_ring_elements s))"
  from assms have len: "6 \<le> length (sugar_ring_elements s)"
    by (auto simp: cremerPople_pyranose_def Let_def split: if_splits)
  from assms obtain pr where pr: "project_ring (atom_list s) mm ?nz = Some pr"
    by (auto simp: cremerPople_pyranose_def Let_def split: if_splits option.splits)
  from len have l6: "length ?nz = 6" by simp
  have z: "length (pr_z pr) = 6" using project_ring_length [OF pr] l6 by simp
  have m: "\<forall>i<6. \<exists>c. named_coord mm (trim (name (sugar_ring_elements s ! i))) = Some c
              \<and> pr_z pr ! i = dot (vsub c (pr_centre pr)) (pr_normal pr)"
  proof (intro allI impI)
    fix i :: nat assume i: "i < 6"
    with l6 have "i < length ?nz" by simp
    from project_ring_meaning [OF pr this] i len show
      "\<exists>c. named_coord mm (trim (name (sugar_ring_elements s ! i))) = Some c
              \<and> pr_z pr ! i = dot (vsub c (pr_centre pr)) (pr_normal pr)"
      by simp
  qed
  from assms pr len have
    "cp ! 0 = Num (pyranose_parameters (to_float env) (pr_z pr) ! 0)"
    "cp ! 4 = Num (pyranose_parameters (to_float env) (pr_z pr) ! 4)"
    "cp ! 2 = Num (pyranose_parameters (to_float env) (pr_z pr) ! 2)"
    "cp ! 3 = Num (pyranose_parameters (to_float env) (pr_z pr) ! 3)"
    by (auto simp: cremerPople_pyranose_def Let_def)
  with pr z m show ?thesis
    by (simp add: Let_def pyranose_parameters_components)
qed

lemma name_XXX: "trim (name (set_id default_MAtom ''XXX'')) = ''XXX''"
  by (simp add: set_id_def default_MAtom_def id_tidy_def name_def trim_def is_blank_def islower_def Let_def)

lemma is_part_of_ring_transform [simp]:
  "is_part_of_ring (transform rt a) ring = is_part_of_ring a ring"
  by (induction ring) simp_all

lemma nz6_step_cases:
  "nz6_step rc ring sub a = sub \<or>
   (nz6_step rc ring sub a = a \<and> trim (element a) \<noteq> ''H'' \<and> \<not> is_part_of_ring a ring
      \<and> coord_length (coord_orth a) (coord_orth rc) < 1.8)"
  by (simp add: nz6_step_def)

lemma nz5_step_cases:
  "nz5_step rc ring sub a = sub \<or>
   (nz5_step rc ring sub a = a \<and> trim (element a) \<noteq> ''H'' \<and> \<not> is_part_of_ring a ring
      \<and> coord_length (coord_orth a) (coord_orth rc) < 1.8)"
  by (simp add: nz5_step_def)

lemma scan_result:
  assumes step: "\<And>sub a. f sub a = sub \<or> (f sub a = a \<and> P a)"
  shows "foldl f init xs = init \<or> (foldl f init xs \<in> set xs \<and> P (foldl f init xs))"
proof (induction xs rule: rev_induct)
  case Nil
  then show ?case by simp
next
  case (snoc x xs)
  from step [of "foldl f init xs" x] snoc show ?case by auto
qed

text \<open>The chosen substituent is the "XXX" atom or a qualifying atom outside the ring.\<close>

lemma nz6_substituent_cases:
  "nz6_substituent env ring = set_id default_MAtom ''XXX''
   \<or> (nz6_substituent env ring \<in> set (atoms_near env (coord_orth (ring ! 5)) 1.2)
      \<and> trim (element (nz6_substituent env ring)) \<noteq> ''H''
      \<and> \<not> is_part_of_ring (nz6_substituent env ring) ring
      \<and> coord_length (coord_orth (nz6_substituent env ring)) (coord_orth (ring ! 5)) < 1.8)"
  unfolding nz6_substituent_def
  using scan_result [of "nz6_step (ring ! 5) ring"
      "\<lambda>a. trim (element a) \<noteq> ''H'' \<and> \<not> is_part_of_ring a ring \<and> coord_length (coord_orth a) (coord_orth (ring ! 5)) < 1.8"
      "set_id default_MAtom ''XXX''" "atoms_near env (coord_orth (ring ! 5)) 1.2"]
    nz6_step_cases [of "ring ! 5" ring]
  by blast

lemma nz5_substituent_cases:
  "nz5_substituent env ring = set_id default_MAtom ''XXX''
   \<or> (nz5_substituent env ring \<in> set (atoms_near env (coord_orth (ring ! 4)) 1.5)
      \<and> trim (element (nz5_substituent env ring)) \<noteq> ''H''
      \<and> \<not> is_part_of_ring (nz5_substituent env ring) ring
      \<and> coord_length (coord_orth (nz5_substituent env ring)) (coord_orth (ring ! 4)) < 1.8)"
  unfolding nz5_substituent_def
  using scan_result [of "nz5_step (ring ! 4) ring"
      "\<lambda>a. trim (element a) \<noteq> ''H'' \<and> \<not> is_part_of_ring a ring \<and> coord_length (coord_orth a) (coord_orth (ring ! 4)) < 1.8"
      "set_id default_MAtom ''XXX''" "atoms_near env (coord_orth (ring ! 4)) 1.5"]
    nz5_step_cases [of "ring ! 4" ring]
  by blast

lemma handedness_of_cases:
  "(handedness_of sub ring z zs = ''N'' \<longleftrightarrow> is_part_of_ring sub ring \<or> trim (name sub) = ''XXX'')
   \<and> (handedness_of sub ring z zs = ''D'' \<longleftrightarrow>
        \<not> (is_part_of_ring sub ring \<or> trim (name sub) = ''XXX'') \<and> z - zs < 0)
   \<and> (handedness_of sub ring z zs = ''L'' \<longleftrightarrow>
        \<not> (is_part_of_ring sub ring \<or> trim (name sub) = ''XXX'') \<and> \<not> z - zs < 0)"
  by (simp add: handedness_of_def)

text \<open>
  C6. For a ring of six atoms and for a ring of five, when the Cremer-Pople
  function returns: the handedness is "N" exactly when the substituent chosen for
  the ring-closing carbon is the "XXX" atom (none was found) or is part of the
  ring; it is "D" exactly when neither is the case and \<open>z_ringclose - z_substituent\<close>
  is negative, and "L" exactly when neither is the case and the difference is not
  negative. Both \<open>z\<close> values are scalar products with the mean-plane normal, after
  the translation to the centre of the ring.
\<close>

theorem handedness_rule:
  "(cremerPople_pyranose env mm s = Some (cp, s') \<longrightarrow>
      (\<exists>pr. project_ring (atom_list s) mm
               (map (\<lambda>a. trim (name a)) (take 6 (sugar_ring_elements s))) = Some pr
         \<and> (let substituent = transform (shift_to (pr_centre pr))
                                (nz6_substituent env (sugar_ring_elements s));
                 not_found = (trim (name substituent) = ''XXX''
                              \<or> is_part_of_ring substituent (sugar_ring_elements s));
                 z_ringclose = pr_z pr ! 5;
                 z_substituent = dot (coord_orth substituent) (pr_normal pr)
             in (sugar_handedness s' = ''N'' \<longleftrightarrow> not_found)
                \<and> (sugar_handedness s' = ''D'' \<longleftrightarrow> \<not> not_found \<and> z_ringclose - z_substituent < 0)
                \<and> (sugar_handedness s' = ''L'' \<longleftrightarrow> \<not> not_found \<and> \<not> z_ringclose - z_substituent < 0))))
   \<and> (cremerPople_furanose env5 mm5 s5 = Some (cp5, s5') \<longrightarrow>
      (\<exists>pr. project_ring (atom_list s5) (atom_list s5)
               (map (\<lambda>a. trim (name a)) (take 5 (sugar_ring_elements s5))) = Some pr
         \<and> (let substituent = transform (shift_to (pr_centre pr))
                                (nz5_substituent env5 (sugar_ring_elements s5));
                 not_found = (trim (name substituent) = ''XXX''
                              \<or> is_part_of_ring substituent (sugar_ring_elements s5));
                 z_ringclose = pr_z pr ! 4;
                 z_substituent = dot (coord_orth substituent) (pr_normal pr)
             in (sugar_handedness s5' = ''N'' \<longleftrightarrow> not_found)
                \<and> (sugar_handedness s5' = ''D'' \<longleftrightarrow> \<not> not_found \<and> z_ringclose - z_substituent < 0)
                \<and> (sugar_handedness s5' = ''L'' \<longleftrightarrow> \<not> not_found \<and> \<not> z_ringclose - z_substituent < 0))))"
proof (intro conjI impI)
  assume a: "cremerPople_pyranose env mm s = Some (cp, s')"
  then obtain pr where pr: "project_ring (atom_list s) mm
               (map (\<lambda>a. trim (name a)) (take 6 (sugar_ring_elements s))) = Some pr"
    by (auto simp: cremerPople_pyranose_def Let_def split: if_splits option.splits)
  with a have "sugar_handedness s' =
      handedness_of (transform (shift_to (pr_centre pr)) (nz6_substituent env (sugar_ring_elements s)))
        (sugar_ring_elements s) (pr_z pr ! 5)
        (dot (coord_orth (transform (shift_to (pr_centre pr)) (nz6_substituent env (sugar_ring_elements s)))) (pr_normal pr))"
    by (auto simp: cremerPople_pyranose_def Let_def split: if_splits)
  with pr show "\<exists>pr. project_ring (atom_list s) mm
               (map (\<lambda>a. trim (name a)) (take 6 (sugar_ring_elements s))) = Some pr
         \<and> (let substituent = transform (shift_to (pr_centre pr))
                                (nz6_substituent env (sugar_ring_elements s));
                 not_found = (trim (name substituent) = ''XXX''
                              \<or> is_part_of_ring substituent (sugar_ring_elements s));
                 z_ringclose = pr_z pr ! 5;
                 z_substituent = dot (coord_orth substituent) (pr_normal pr)
             in (sugar_handedness s' = ''N'' \<longleftrightarrow> not_found)
                \<and> (sugar_handedness s' = ''D'' \<longleftrightarrow> \<not> not_found \<and> z_ringclose - z_substituent < 0)
                \<and> (sugar_handedness s' = ''L'' \<longleftrightarrow> \<not> not_found \<and> \<not> z_ringclose - z_substituent < 0))"
    using handedness_of_cases by (auto simp: Let_def)
next
  assume a: "cremerPople_furanose env5 mm5 s5 = Some (cp5, s5')"
  then obtain pr where pr: "project_ring (atom_list s5) (atom_list s5)
               (map (\<lambda>a. trim (name a)) (take 5 (sugar_ring_elements s5))) = Some pr"
    by (auto simp: cremerPople_furanose_def Let_def split: if_splits option.splits)
  with a have "sugar_handedness s5' =
      handedness_of (transform (shift_to (pr_centre pr)) (nz5_substituent env5 (sugar_ring_elements s5)))
        (sugar_ring_elements s5) (pr_z pr ! 4)
        (dot (coord_orth (transform (shift_to (pr_centre pr)) (nz5_substituent env5 (sugar_ring_elements s5)))) (pr_normal pr))"
    by (auto simp: cremerPople_furanose_def Let_def split: if_splits)
  with pr show "\<exists>pr. project_ring (atom_list s5) (atom_list s5)
               (map (\<lambda>a. trim (name a)) (take 5 (sugar_ring_elements s5))) = Some pr
         \<and> (let substituent = transform (shift_to (pr_centre pr))
                                (nz5_substituent env5 (sugar_ring_elements s5));
                 not_found = (trim (name substituent) = ''XXX''
                              \<or> is_part_of_ring substituent (sugar_ring_elements s5));
                 z_ringclose = pr_z pr ! 4;
                 z_substituent = dot (coord_orth substituent) (pr_normal pr)
             in (sugar_handedness s5' = ''N'' \<longleftrightarrow> not_found)
                \<and> (sugar_handedness s5' = ''D'' \<longleftrightarrow> \<not> not_found \<and> z_ringclose - z_substituent < 0)
                \<and> (sugar_handedness s5' = ''L'' \<longleftrightarrow> \<not> not_found \<and> \<not> z_ringclose - z_substituent < 0))"
    using handedness_of_cases by (auto simp: Let_def)
qed

section \<open>Properties of the constructor\<close>

subsection \<open>The stages of the ring analysis\<close>

text \<open>
  What each stage of the analysis writes and what it leaves as it was.
\<close>

lemma examine_ring_shape:
  assumes "examine_ring s = Some (b, s')"
  shows "3 \<le> length (sugar_ring_elements s) \<and>
         (\<exists>an bo ra rb. s' = s\<lparr>sugar_ring_angles := an, sugar_ring_bonds := bo,
                                sugar_ring_angle_rmsd := ra, sugar_ring_bond_rmsd := rb\<rparr>)"
  using assms by (auto simp: examine_ring_def Let_def split: if_splits)

lemma examine_ring_Some:
  assumes "3 \<le> length (sugar_ring_elements s)" "sugar_ring_angles s = []" "sugar_ring_bonds s = []"
  shows "\<exists>b s'. examine_ring s = Some (b, s')"
  using assms by (simp add: examine_ring_def Let_def)

lemma handedness_of_values: "handedness_of sub ring z zs \<in> {''N'', ''D'', ''L''}"
  by (simp add: handedness_of_def)

lemma anomer_string_values: "anomer_string a \<in> {''alpha'', ''beta''}"
  by (cases a) simp_all

lemma cremerPople_pyranose_result:
  assumes "cremerPople_pyranose env mm s = Some (cp, s')"
  obtains pr where
    "6 \<le> length (sugar_ring_elements s)"
    "project_ring (atom_list s) mm (map (\<lambda>a. trim (name a)) (take 6 (sugar_ring_elements s))) = Some pr"
    "s' = (store_stereo (get_stereochemistry env (sugar_ring_elements s)) s)
             \<lparr>sugar_centre := pr_centre pr,
              sugar_cremer_pople_params := sugar_cremer_pople_params s
                 @ [pyranose_parameters (to_float env) (pr_z pr) ! 0,
                    pyranose_parameters (to_float env) (pr_z pr) ! 1,
                    pyranose_parameters (to_float env) (pr_z pr) ! 2],
              sugar_anomer := anomer_string (stereo_anomer (get_stereochemistry env (sugar_ring_elements s))
                 (lurd_reverse (get_stereochemistry env (sugar_ring_elements s))
                    (sugar_ring_elements s ! 5) (sugar_ring_elements s)) pr),
              sugar_handedness := handedness_of
                 (transform (shift_to (pr_centre pr)) (nz6_substituent env (sugar_ring_elements s)))
                 (sugar_ring_elements s) (pr_z pr ! 5)
                 (dot (coord_orth (transform (shift_to (pr_centre pr))
                        (nz6_substituent env (sugar_ring_elements s)))) (pr_normal pr))\<rparr>"
proof -
  from assms have len: "6 \<le> length (sugar_ring_elements s)"
    unfolding cremerPople_pyranose_def Let_def by (simp split: if_splits)
  with assms obtain pr where pr: "project_ring (atom_list s) mm
      (map (\<lambda>a. trim (name a)) (take 6 (sugar_ring_elements s))) = Some pr"
    unfolding cremerPople_pyranose_def Let_def by (simp split: option.splits)
  from assms len pr that show ?thesis
    unfolding cremerPople_pyranose_def Let_def by simp
qed

lemma cremerPople_furanose_result:
  assumes "cremerPople_furanose env mm s = Some (cp, s')"
  obtains pr where
    "5 \<le> length (sugar_ring_elements s)"
    "project_ring (atom_list s) (atom_list s)
       (map (\<lambda>a. trim (name a)) (take 5 (sugar_ring_elements s))) = Some pr"
    "s' = (store_stereo (get_stereochemistry env (sugar_ring_elements s)) s)
             \<lparr>sugar_centre := pr_centre pr,
              sugar_cremer_pople_params := sugar_cremer_pople_params s
                 @ [furanose_parameters (pr_z pr) ! 0, - 1, furanose_parameters (pr_z pr) ! 1],
              sugar_anomer := anomer_string (stereo_anomer (get_stereochemistry env (sugar_ring_elements s))
                 (lurd_reverse (get_stereochemistry env (sugar_ring_elements s))
                    (sugar_ring_elements s ! 4) (sugar_ring_elements s)) pr),
              sugar_handedness := handedness_of
                 (transform (shift_to (pr_centre pr)) (nz5_substituent env (sugar_ring_elements s)))
                 (sugar_ring_elements s) (pr_z pr ! 4)
                 (dot (coord_orth (transform (shift_to (pr_centre pr))
                        (nz5_substituent env (sugar_ring_elements s)))) (pr_normal pr))\<rparr>"
proof -
  from assms have len: "5 \<le> length (sugar_ring_elements s)"
    unfolding cremerPople_furanose_def Let_def by (simp split: if_splits)
  with assms obtain pr where pr: "project_ring (atom_list s) (atom_list s)
      (map (\<lambda>a. trim (name a)) (take 5 (sugar_ring_elements s))) = Some pr"
    unfolding cremerPople_furanose_def Let_def by (simp split: option.splits)
  from assms len pr that show ?thesis
    unfolding cremerPople_furanose_def Let_def by simp
qed

lemma cremerPople_pyranose_frame:
  assumes "cremerPople_pyranose env mm s = Some (cp, s')"
  shows "sugar_found_db s' = sugar_found_db s \<and> sugar_index s' = sugar_index s
       \<and> sugar_ring_elements s' = sugar_ring_elements s
       \<and> sugar_alternate_confcode s' = sugar_alternate_confcode s
       \<and> sugar_ring_angles s' = sugar_ring_angles s \<and> sugar_ring_bonds s' = sugar_ring_bonds s
       \<and> atom_list s' = atom_list s \<and> sugar_supported s' = sugar_supported s
       \<and> sugar_anomer s' \<in> {''alpha'', ''beta''}
       \<and> sugar_handedness s' \<in> {''N'', ''D'', ''L''}"
  using assms
proof (cases rule: cremerPople_pyranose_result)
  case (1 pr)
  show ?thesis
    unfolding 1(3) using handedness_of_values anomer_string_values
    by (simp add: store_stereo_def)
qed

lemma cremerPople_furanose_frame:
  assumes "cremerPople_furanose env mm s = Some (cp, s')"
  shows "sugar_found_db s' = sugar_found_db s \<and> sugar_index s' = sugar_index s
       \<and> sugar_ring_elements s' = sugar_ring_elements s
       \<and> sugar_alternate_confcode s' = sugar_alternate_confcode s
       \<and> sugar_ring_angles s' = sugar_ring_angles s \<and> sugar_ring_bonds s' = sugar_ring_bonds s
       \<and> atom_list s' = atom_list s \<and> sugar_supported s' = sugar_supported s
       \<and> sugar_anomer s' \<in> {''alpha'', ''beta''}
       \<and> sugar_handedness s' \<in> {''N'', ''D'', ''L''}"
  using assms
proof (cases rule: cremerPople_furanose_result)
  case (1 pr)
  show ?thesis
    unfolding 1(3) using handedness_of_values anomer_string_values
    by (simp add: store_stereo_def)
qed

lemma classify_ring_cases:
  assumes "classify_ring env mm s = Some s1"
  obtains (furanose) cp s' where "length (sugar_ring_elements s) = 5"
      "cremerPople_furanose env mm s = Some (cp, s')"
      "s1 = s'\<lparr>sugar_conformation := conformationFuranose (sugar_cremer_pople_params s' ! 2)\<rparr>"
  | (pyranose) cp s' where "length (sugar_ring_elements s) = 6"
      "cremerPople_pyranose env mm s = Some (cp, s')"
      "s1 = s'\<lparr>sugar_conformation := conformationPyranose (sugar_cremer_pople_params s' ! 1)
                  (sugar_cremer_pople_params s' ! 2)\<rparr>"
  | (unsupported) "length (sugar_ring_elements s) \<noteq> 5" "length (sugar_ring_elements s) \<noteq> 6"
      "s1 = mark_unsupported s"
  using assms by (auto simp: classify_ring_def split: if_splits)

lemma classify_ring_frame:
  assumes "classify_ring env mm s = Some s1"
  shows "sugar_found_db s1 = sugar_found_db s \<and> sugar_index s1 = sugar_index s
       \<and> sugar_ring_elements s1 = sugar_ring_elements s
       \<and> sugar_alternate_confcode s1 = sugar_alternate_confcode s
       \<and> sugar_ring_angles s1 = sugar_ring_angles s \<and> sugar_ring_bonds s1 = sugar_ring_bonds s
       \<and> atom_list s1 = atom_list s"
  using assms
proof (cases rule: classify_ring_cases)
  case (furanose cp s')
  from cremerPople_furanose_frame [OF furanose(2)] furanose(3) show ?thesis by simp
next
  case (pyranose cp s')
  from cremerPople_pyranose_frame [OF pyranose(2)] pyranose(3) show ?thesis by simp
next
  case unsupported
  then show ?thesis by (simp add: mark_unsupported_def)
qed

lemma classify_ring_supported:
  assumes "classify_ring env mm s = Some s1"
    and "length (sugar_ring_elements s) = 5 \<or> length (sugar_ring_elements s) = 6"
  shows "sugar_supported s1 = sugar_supported s
       \<and> sugar_anomer s1 \<in> {''alpha'', ''beta''} \<and> sugar_handedness s1 \<in> {''N'', ''D'', ''L''}"
  using assms(1)
proof (cases rule: classify_ring_cases)
  case (furanose cp s')
  from cremerPople_furanose_frame [OF furanose(2)] furanose(3)
  show ?thesis by simp
next
  case (pyranose cp s')
  from cremerPople_pyranose_frame [OF pyranose(2)] pyranose(3)
  show ?thesis by simp
next
  case unsupported
  with assms(2) show ?thesis by simp
qed

lemma classify_ring_unsupported:
  assumes "length (sugar_ring_elements s) \<noteq> 5" "length (sugar_ring_elements s) \<noteq> 6"
  shows "classify_ring env mm s = Some (mark_unsupported s)"
  using assms by (simp add: classify_ring_def)

lemma diagnostics_result:
  assumes "diagnostics db s = Some s'"
  obtains (found) e where "sugar_found_db s" "database_entry db (sugar_index s) = Some e"
    "s' = s\<lparr>sugar_diag_chirality :=
                ((sugar_handedness s \<noteq> ''D'' \<and> handedness e \<noteq> ''D'')
                 \<or> (sugar_handedness s \<noteq> ''L'' \<and> handedness e \<noteq> ''L'')),
            sugar_diag_anomer :=
                ((sugar_anomer s = ''alpha'' \<and> anomer e \<noteq> ''B'')
                 \<or> (sugar_anomer s = ''beta'' \<and> anomer e \<noteq> ''A'')),
            sugar_diag_bonds_rmsd :=
                (if length (sugar_ring_elements s) = 5 then sugar_ring_bond_rmsd s < 0.040
                 else sugar_ring_bond_rmsd s < 0.035),
            sugar_diag_angles_rmsd :=
                (if length (sugar_ring_elements s) = 5
                 then sugar_ring_angle_rmsd s > 4.0 \<and> sugar_ring_angle_rmsd s < 7.5
                 else sugar_ring_angle_rmsd s < 4.0),
            sugar_sane :=
                (if (if length (sugar_ring_elements s) = 5
                     then sugar_ring_angle_rmsd s > 4.0 \<and> sugar_ring_angle_rmsd s < 7.5
                     else sugar_ring_angle_rmsd s < 4.0)
                    \<and> (if length (sugar_ring_elements s) = 5 then sugar_ring_bond_rmsd s < 0.040
                        else sugar_ring_bond_rmsd s < 0.035)
                    \<and> ((sugar_anomer s = ''alpha'' \<and> anomer e \<noteq> ''B'')
                        \<or> (sugar_anomer s = ''beta'' \<and> anomer e \<noteq> ''A''))
                    \<and> ((sugar_handedness s \<noteq> ''D'' \<and> handedness e \<noteq> ''D'')
                        \<or> (sugar_handedness s \<noteq> ''L'' \<and> handedness e \<noteq> ''L''))
                    \<and> sugar_diag_ring s
                 then True else sugar_sane s)\<rparr>"
  | (not_found) "\<not> sugar_found_db s"
    "s' = s\<lparr>sugar_diag_anomer := False, sugar_diag_chirality := False,
            sugar_diag_bonds_rmsd := False, sugar_diag_angles_rmsd := False\<rparr>"
proof (cases "sugar_found_db s")
  case True
  with assms obtain e where e: "database_entry db (sugar_index s) = Some e"
    unfolding diagnostics_def by (cases "database_entry db (sugar_index s)") simp_all
  from assms True e have "Some s' = Some (s\<lparr>sugar_diag_chirality :=
                ((sugar_handedness s \<noteq> ''D'' \<and> handedness e \<noteq> ''D'')
                 \<or> (sugar_handedness s \<noteq> ''L'' \<and> handedness e \<noteq> ''L'')),
            sugar_diag_anomer :=
                ((sugar_anomer s = ''alpha'' \<and> anomer e \<noteq> ''B'')
                 \<or> (sugar_anomer s = ''beta'' \<and> anomer e \<noteq> ''A'')),
            sugar_diag_bonds_rmsd :=
                (if length (sugar_ring_elements s) = 5 then sugar_ring_bond_rmsd s < 0.040
                 else sugar_ring_bond_rmsd s < 0.035),
            sugar_diag_angles_rmsd :=
                (if length (sugar_ring_elements s) = 5
                 then sugar_ring_angle_rmsd s > 4.0 \<and> sugar_ring_angle_rmsd s < 7.5
                 else sugar_ring_angle_rmsd s < 4.0),
            sugar_sane :=
                (if (if length (sugar_ring_elements s) = 5
                     then sugar_ring_angle_rmsd s > 4.0 \<and> sugar_ring_angle_rmsd s < 7.5
                     else sugar_ring_angle_rmsd s < 4.0)
                    \<and> (if length (sugar_ring_elements s) = 5 then sugar_ring_bond_rmsd s < 0.040
                        else sugar_ring_bond_rmsd s < 0.035)
                    \<and> ((sugar_anomer s = ''alpha'' \<and> anomer e \<noteq> ''B'')
                        \<or> (sugar_anomer s = ''beta'' \<and> anomer e \<noteq> ''A''))
                    \<and> ((sugar_handedness s \<noteq> ''D'' \<and> handedness e \<noteq> ''D'')
                        \<or> (sugar_handedness s \<noteq> ''L'' \<and> handedness e \<noteq> ''L''))
                    \<and> sugar_diag_ring s
                 then True else sugar_sane s)\<rparr>)"
    unfolding diagnostics_def Let_def by (simp only: if_True option.case)
  then show ?thesis using found [OF True e] by (simp only: option.inject)
next
  case False
  with assms have "Some s' = Some (s\<lparr>sugar_diag_anomer := False, sugar_diag_chirality := False,
            sugar_diag_bonds_rmsd := False, sugar_diag_angles_rmsd := False\<rparr>)"
    unfolding diagnostics_def by (simp only: if_False)
  then show ?thesis using not_found [OF False] by (simp only: option.inject)
qed

lemma diagnostics_frame:
  assumes "diagnostics db s = Some s'"
  shows "sugar_found_db s' = sugar_found_db s \<and> sugar_index s' = sugar_index s
       \<and> sugar_ring_elements s' = sugar_ring_elements s
       \<and> sugar_alternate_confcode s' = sugar_alternate_confcode s
       \<and> sugar_denomination s' = sugar_denomination s
       \<and> sugar_anomer s' = sugar_anomer s \<and> sugar_handedness s' = sugar_handedness s
       \<and> sugar_supported s' = sugar_supported s \<and> sugar_diag_ring s' = sugar_diag_ring s
       \<and> sugar_ring_bond_rmsd s' = sugar_ring_bond_rmsd s
       \<and> sugar_ring_angle_rmsd s' = sugar_ring_angle_rmsd s"
  using assms
proof (cases rule: diagnostics_result)
  case (found e)
  show ?thesis unfolding found(3) by simp
next
  case not_found
  show ?thesis unfolding not_found(2) by simp
qed

lemma diagnostics_found:
  assumes "diagnostics db s = Some s'" "sugar_found_db s"
  shows "\<exists>e. database_entry db (sugar_index s) = Some e
       \<and> sugar_diag_chirality s' =
           ((sugar_handedness s \<noteq> ''D'' \<and> handedness e \<noteq> ''D'')
            \<or> (sugar_handedness s \<noteq> ''L'' \<and> handedness e \<noteq> ''L''))
       \<and> sugar_diag_anomer s' =
           ((sugar_anomer s = ''alpha'' \<and> anomer e \<noteq> ''B'')
            \<or> (sugar_anomer s = ''beta'' \<and> anomer e \<noteq> ''A''))
       \<and> sugar_diag_bonds_rmsd s' =
           (if length (sugar_ring_elements s) = 5 then sugar_ring_bond_rmsd s < 0.040
            else sugar_ring_bond_rmsd s < 0.035)
       \<and> sugar_diag_angles_rmsd s' =
           (if length (sugar_ring_elements s) = 5
            then sugar_ring_angle_rmsd s > 4.0 \<and> sugar_ring_angle_rmsd s < 7.5
            else sugar_ring_angle_rmsd s < 4.0)
       \<and> sugar_sane s' =
           (sugar_sane s \<or> (sugar_diag_angles_rmsd s' \<and> sugar_diag_bonds_rmsd s'
              \<and> sugar_diag_anomer s' \<and> sugar_diag_chirality s' \<and> sugar_diag_ring s'))"
  using assms(1)
proof (cases rule: diagnostics_result)
  case (found e)
  show ?thesis
    apply (rule exI [of _ e])
    unfolding found(3) using found(2) by auto
next
  case not_found
  with assms(2) show ?thesis by simp
qed

lemma diagnostics_not_found:
  assumes "diagnostics db s = Some s'" "\<not> sugar_found_db s"
  shows "\<not> sugar_diag_chirality s' \<and> \<not> sugar_diag_anomer s' \<and> \<not> sugar_diag_bonds_rmsd s'
       \<and> \<not> sugar_diag_angles_rmsd s' \<and> sugar_sane s' = sugar_sane s"
  using assms(1)
proof (cases rule: diagnostics_result)
  case (found e)
  with assms(2) show ?thesis by simp
next
  case not_found
  show ?thesis unfolding not_found(2) by simp
qed

lemma name_sugar_frame:
  "sugar_found_db (name_sugar s) = sugar_found_db s \<and> sugar_index (name_sugar s) = sugar_index s
   \<and> sugar_ring_elements (name_sugar s) = sugar_ring_elements s
   \<and> sugar_alternate_confcode (name_sugar s) = sugar_alternate_confcode s
   \<and> sugar_anomer (name_sugar s) = sugar_anomer s
   \<and> sugar_handedness (name_sugar s) = sugar_handedness s
   \<and> sugar_supported (name_sugar s) = sugar_supported s
   \<and> sugar_ring_angles (name_sugar s) = sugar_ring_angles s
   \<and> sugar_ring_bonds (name_sugar s) = sugar_ring_bonds s"
  by (simp add: name_sugar_def Let_def)

lemma name_sugar_denomination:
  "sugar_denomination (name_sugar s) =
     sugar_anomer s @ ''-'' @ sugar_handedness s @ ''-''
     @ (if str_contains (trim (name (sugar_ring_elements s ! 1))) ''C1'' then ''aldo'' else ''keto'')
     @ (if length (sugar_ring_elements s) = 5 then ''furanose'' else ''pyranose'')"
  by (simp add: name_sugar_def Let_def)

text \<open>The stages a completed analysis went through.\<close>

lemma ring_analysis_stages:
  assumes "ring_analysis db env mm s = Some s'"
  obtains s1 ring_closes s6 where
    "classify_ring env mm s = Some s1"
    "2 \<le> length (sugar_ring_elements s1)"
    "examine_ring ((name_sugar s1)\<lparr>sugar_sane := False\<rparr>) = Some (ring_closes, s6)"
    "diagnostics db (s6\<lparr>sugar_diag_ring := ring_closes\<rparr>) = Some s'"
  using assms
  by (auto simp: ring_analysis_def split: option.splits if_splits)

lemma examine_ring_frame:
  assumes "examine_ring s = Some (b, s')"
  shows "sugar_found_db s' = sugar_found_db s \<and> sugar_index s' = sugar_index s
       \<and> sugar_ring_elements s' = sugar_ring_elements s
       \<and> sugar_alternate_confcode s' = sugar_alternate_confcode s
       \<and> sugar_denomination s' = sugar_denomination s
       \<and> sugar_anomer s' = sugar_anomer s \<and> sugar_handedness s' = sugar_handedness s
       \<and> sugar_supported s' = sugar_supported s \<and> sugar_sane s' = sugar_sane s"
proof -
  from examine_ring_shape [OF assms] obtain an bo ra rb where
    "s' = s\<lparr>sugar_ring_angles := an, sugar_ring_bonds := bo,
            sugar_ring_angle_rmsd := ra, sugar_ring_bond_rmsd := rb\<rparr>" by blast
  then show ?thesis by simp
qed

text \<open>What a completed analysis leaves in the object.\<close>

lemma ring_analysis_result:
  assumes "ring_analysis db env mm s = Some s'"
  obtains s1 s6 where
    "classify_ring env mm s = Some s1"
    "2 \<le> length (sugar_ring_elements s)"
    "diagnostics db s6 = Some s'"
    "sugar_found_db s6 = sugar_found_db s" "sugar_index s6 = sugar_index s"
    "sugar_ring_elements s6 = sugar_ring_elements s"
    "sugar_alternate_confcode s6 = sugar_alternate_confcode s"
    "sugar_sane s6 = False"
    "sugar_anomer s6 = sugar_anomer s1" "sugar_handedness s6 = sugar_handedness s1"
    "sugar_supported s6 = sugar_supported s1"
    "sugar_denomination s6 = sugar_denomination (name_sugar s1)"
proof -
  from assms obtain s1 ring_closes s6 where
    c: "classify_ring env mm s = Some s1"
    and l: "2 \<le> length (sugar_ring_elements s1)"
    and e: "examine_ring ((name_sugar s1)\<lparr>sugar_sane := False\<rparr>) = Some (ring_closes, s6)"
    and d: "diagnostics db (s6\<lparr>sugar_diag_ring := ring_closes\<rparr>) = Some s'"
    by (rule ring_analysis_stages)
  note f1 = classify_ring_frame [OF c]
  note f2 = name_sugar_frame [of s1]
  note f3 = examine_ring_frame [OF e]
  show ?thesis
    by (rule that [OF c _ d]) (use l f1 f2 f3 in simp_all)
qed

subsection \<open>The template loop\<close>

lemma template_atom_cases:
  obtains (fails) "template_fails (atom_list s) b" "template_atom b s = Returned (mark_unsupported s)"
  | (altconf) a where "resolved_through_altconf (atom_list s) b"
      "template_atom b s = Continue (s\<lparr>sugar_alternate_confcode := '' :B'',
                                      sugar_ring_elements := sugar_ring_elements s @ [a]\<rparr>)"
  | (plain) a where "\<not> template_fails (atom_list s) b" "\<not> resolved_through_altconf (atom_list s) b"
      "template_atom b s = Continue (s\<lparr>sugar_ring_elements := sugar_ring_elements s @ [a]\<rparr>)"
proof (cases "lookup (atom_list s) b ANY = - 1")
  case True
  then show ?thesis
    by (intro fails) (simp_all add: template_fails_def template_atom_def)
next
  case found: False
  show ?thesis
  proof (cases "needs_altconf (atom_list s) b")
    case False
    with found show ?thesis
      by (intro plain) (auto simp: template_fails_def resolved_through_altconf_def template_atom_def needs_altconf_def)
  next
    case need: True
    show ?thesis
    proof (cases "lookup (atom_list s) (trim b @ '' :A'') UNIQUE = - 1")
      case a: True
      show ?thesis
      proof (cases "lookup (atom_list s) (trim b @ '' :B'') UNIQUE = - 1")
        case True
        with found need a show ?thesis
          by (intro fails) (auto simp: template_fails_def template_atom_def needs_altconf_def Let_def)
      next
        case False
        with found need a show ?thesis
          by (intro altconf) (auto simp: resolved_through_altconf_def template_atom_def needs_altconf_def Let_def)
      qed
    next
      case False
      with found need show ?thesis
        by (intro altconf) (auto simp: resolved_through_altconf_def template_atom_def needs_altconf_def Let_def)
    qed
  qed
qed

lemma mark_unsupported_fields [simp]:
  "sugar_alternate_confcode (mark_unsupported s) = sugar_alternate_confcode s"
  "atom_list (mark_unsupported s) = atom_list s"
  "sugar_found_db (mark_unsupported s) = sugar_found_db s"
  "sugar_index (mark_unsupported s) = sugar_index s"
  "sugar_ring_elements (mark_unsupported s) = sugar_ring_elements s"
  "sugar_ring_angles (mark_unsupported s) = sugar_ring_angles s"
  "sugar_ring_bonds (mark_unsupported s) = sugar_ring_bonds s"
  "sugar_denomination (mark_unsupported s) = ''    unsupported    ''"
  "sugar_anomer (mark_unsupported s) = ''X''"
  "sugar_handedness (mark_unsupported s) = ''X''"
  "sugar_supported (mark_unsupported s) = False"
  "sugar_sane (mark_unsupported s) = False"
  by (simp_all add: mark_unsupported_def)

text \<open>One round of the loop: what it keeps and what it does to the code.\<close>

lemma template_atom_frame:
  "atom_list (flow_state (template_atom b s)) = atom_list s
   \<and> sugar_found_db (flow_state (template_atom b s)) = sugar_found_db s
   \<and> sugar_index (flow_state (template_atom b s)) = sugar_index s
   \<and> sugar_ring_angles (flow_state (template_atom b s)) = sugar_ring_angles s
   \<and> sugar_ring_bonds (flow_state (template_atom b s)) = sugar_ring_bonds s
   \<and> (sugar_alternate_confcode (flow_state (template_atom b s)) = sugar_alternate_confcode s
      \<or> sugar_alternate_confcode (flow_state (template_atom b s)) = '' :B'')"
  by (cases rule: template_atom_cases [where s = s and b = b]) simp_all

lemma template_ring_frame:
  "atom_list (flow_state (template_ring buffer s)) = atom_list s
   \<and> sugar_found_db (flow_state (template_ring buffer s)) = sugar_found_db s
   \<and> sugar_index (flow_state (template_ring buffer s)) = sugar_index s
   \<and> sugar_ring_angles (flow_state (template_ring buffer s)) = sugar_ring_angles s
   \<and> sugar_ring_bonds (flow_state (template_ring buffer s)) = sugar_ring_bonds s
   \<and> (sugar_alternate_confcode (flow_state (template_ring buffer s)) = sugar_alternate_confcode s
      \<or> sugar_alternate_confcode (flow_state (template_ring buffer s)) = '' :B'')"
proof (induction buffer arbitrary: s)
  case Nil
  then show ?case by simp
next
  case (Cons b buffer)
  show ?case
  proof (cases "template_atom b s")
    case (Returned s')
    with template_atom_frame [of b s] show ?thesis by simp
  next
    case (Continue s')
    with template_atom_frame [of b s] Cons.IH [of s'] show ?thesis by auto
  qed
qed

lemma template_ring_Returned:
  assumes "template_ring buffer s = Returned s'"
  shows "sugar_denomination s' = ''    unsupported    '' \<and> sugar_anomer s' = ''X''
       \<and> sugar_handedness s' = ''X'' \<and> \<not> sugar_supported s' \<and> \<not> sugar_sane s'"
  using assms
proof (induction buffer arbitrary: s)
  case Nil
  then show ?case by simp
next
  case (Cons b buffer)
  show ?case
  proof (cases rule: template_atom_cases [where s = s and b = b])
    case fails
    with Cons.prems show ?thesis by auto
  next
    case (altconf a)
    with Cons.prems Cons.IH show ?thesis by simp
  next
    case (plain a)
    with Cons.prems Cons.IH show ?thesis by simp
  qed
qed

text \<open>
  Once a name of the template has been resolved through the alternate-conformation
  lookup, the code is " :B" whatever the rest of the loop does.
\<close>

lemma template_ring_altconf:
  assumes "\<forall>x\<in>set pre. \<not> template_fails (atom_list s) x"
    and "resolved_through_altconf (atom_list s) b"
  shows "sugar_alternate_confcode (flow_state (template_ring (pre @ b # post) s)) = '' :B''"
  using assms
proof (induction pre arbitrary: s)
  case Nil
  show ?case
  proof (cases rule: template_atom_cases [where s = s and b = b])
    case fails
    with Nil.prems show ?thesis
      by (auto simp: template_fails_def resolved_through_altconf_def needs_altconf_def)
  next
    case (altconf a)
    with template_ring_frame [of post "s\<lparr>sugar_alternate_confcode := '' :B'',
        sugar_ring_elements := sugar_ring_elements s @ [a]\<rparr>"]
    show ?thesis by auto
  next
    case (plain a)
    with Nil.prems show ?thesis by simp
  qed
next
  case (Cons x pre)
  show ?case
  proof (cases rule: template_atom_cases [where s = s and b = x])
    case fails
    with Cons.prems show ?thesis by simp
  next
    case (altconf a)
    with Cons.prems Cons.IH [of "s\<lparr>sugar_alternate_confcode := '' :B'',
        sugar_ring_elements := sugar_ring_elements s @ [a]\<rparr>"]
    show ?thesis by simp
  next
    case (plain a)
    with Cons.prems Cons.IH [of "s\<lparr>sugar_ring_elements := sugar_ring_elements s @ [a]\<rparr>"]
    show ?thesis by simp
  qed
qed

subsection \<open>The constructor as a whole\<close>

lemma fresh_sugar_fields [simp]:
  "mm_type (fresh_sugar raw mm) = mm_type mm"
  "atom_list (fresh_sugar raw mm) = atom_list mm"
  "sugar_ring_elements (fresh_sugar raw mm) = []"
  "sugar_ring_angles (fresh_sugar raw mm) = []"
  "sugar_ring_bonds (fresh_sugar raw mm) = []"
  "sugar_alternate_confcode (fresh_sugar raw mm) = '' ''"
  "sugar_supported (fresh_sugar raw mm) = True"
  by (simp_all add: fresh_sugar_def)

lemma constructor_unfold:
  "MSugar_constructor db env raw mm =
    (case lookup_database_from db (trim (mm_type mm)) 0 of
       None \<Rightarrow> ring_analysis db env (atom_list mm) (unlisted_sugar env raw mm)
     | Some i \<Rightarrow>
        (case database_entry db (db_entry i) of
           None \<Rightarrow> None
         | Some e \<Rightarrow>
            (case template_ring (split_blank (trim (ring_atoms e))) (found_sugar raw mm i) of
               Returned s3 \<Rightarrow> Some s3
             | Continue s3 \<Rightarrow> ring_analysis db env (atom_list mm) s3)))"
  by (simp add: MSugar_constructor_def lookup_database_def Let_def found_sugar_def
        unlisted_sugar_def split: option.splits)

lemma constructor_cases:
  assumes "MSugar_constructor db env raw mm = Some s"
  obtains (returned) i e where
      "lookup_database_from db (trim (mm_type mm)) 0 = Some i"
      "database_entry db (db_entry i) = Some e"
      "template_ring (split_blank (trim (ring_atoms e))) (found_sugar raw mm i) = Returned s"
  | (template) i e s3 where
      "lookup_database_from db (trim (mm_type mm)) 0 = Some i"
      "database_entry db (db_entry i) = Some e"
      "template_ring (split_blank (trim (ring_atoms e))) (found_sugar raw mm i) = Continue s3"
      "ring_analysis db env (atom_list mm) s3 = Some s"
  | (search)
      "lookup_database_from db (trim (mm_type mm)) 0 = None"
      "ring_analysis db env (atom_list mm) (unlisted_sugar env raw mm) = Some s"
  using assms unfolding constructor_unfold
  by (auto split: option.splits ctor_flow.splits)

lemma found_sugar_fields [simp]:
  "atom_list (found_sugar raw mm i) = atom_list mm"
  "sugar_found_db (found_sugar raw mm i) = True"
  "sugar_index (found_sugar raw mm i) = db_entry i"
  "sugar_alternate_confcode (found_sugar raw mm i) = '' ''"
  "sugar_ring_angles (found_sugar raw mm i) = []"
  "sugar_ring_bonds (found_sugar raw mm i) = []"
  "sugar_ring_elements (found_sugar raw mm i) = []"
  by (simp_all add: found_sugar_def)

lemma unlisted_sugar_fields [simp]:
  "atom_list (unlisted_sugar env raw mm) = atom_list mm"
  "sugar_found_db (unlisted_sugar env raw mm) = False"
  "sugar_alternate_confcode (unlisted_sugar env raw mm) = '' ''"
  "sugar_ring_angles (unlisted_sugar env raw mm) = []"
  "sugar_ring_bonds (unlisted_sugar env raw mm) = []"
  "sugar_ring_elements (unlisted_sugar env raw mm) = ringMembers env (atom_list mm)"
  by (simp_all add: unlisted_sugar_def)

lemma name_sugar_not_sentinel: "sugar_denomination (name_sugar s) \<noteq> ''    unsupported    ''"
proof
  assume "sugar_denomination (name_sugar s) = ''    unsupported    ''"
  then have "last (sugar_denomination (name_sugar s)) = CHR '' ''" by simp
  then show False by (auto simp: name_sugar_denomination split: if_splits)
qed

lemma ring_analysis_not_sentinel:
  assumes "ring_analysis db env mm s = Some s'"
  shows "sugar_denomination s' \<noteq> ''    unsupported    ''"
  using assms
proof (cases rule: ring_analysis_result)
  case (1 s1 s6)
  with diagnostics_frame [OF 1(3)] name_sugar_not_sentinel [of s1] show ?thesis by simp
qed

text \<open>
  A constructor that went past the ring determination: the analysis ran on a
  state that has the database result of the final object.
\<close>

lemma constructor_completed:
  assumes "MSugar_constructor db env raw mm = Some s"
    and "sugar_denomination s \<noteq> ''    unsupported    ''"
  obtains s3 where "ring_analysis db env (atom_list mm) s3 = Some s"
    "sugar_found_db s3 = sugar_found_db s" "sugar_index s3 = sugar_index s"
    "sugar_ring_elements s3 = sugar_ring_elements s"
  using assms(1)
proof (cases rule: constructor_cases)
  case (returned i e)
  from template_ring_Returned [OF returned(3)] assms(2) show ?thesis by simp
next
  case (template i e s3)
  from template(4) show ?thesis
  proof (cases rule: ring_analysis_result)
    case (1 s1 s6)
    with diagnostics_frame [OF 1(3)] show ?thesis
      by (intro that [OF template(4)]) simp_all
  qed
next
  case search
  from search(2) show ?thesis
  proof (cases rule: ring_analysis_result)
    case (1 s1 s6)
    with diagnostics_frame [OF 1(3)] show ?thesis
      by (intro that [OF search(2)]) simp_all
  qed
qed

lemma ring_analysis_diagnosed:
  assumes "ring_analysis db env mm s3 = Some s" "sugar_found_db s3"
  shows "\<exists>e. database_entry db (sugar_index s) = Some e
       \<and> sugar_diag_chirality s =
           ((sugar_handedness s \<noteq> ''D'' \<and> handedness e \<noteq> ''D'')
            \<or> (sugar_handedness s \<noteq> ''L'' \<and> handedness e \<noteq> ''L''))
       \<and> sugar_diag_anomer s =
           ((sugar_anomer s = ''alpha'' \<and> anomer e \<noteq> ''B'')
            \<or> (sugar_anomer s = ''beta'' \<and> anomer e \<noteq> ''A''))
       \<and> sugar_diag_bonds_rmsd s =
           (if length (sugar_ring_elements s) = 5 then sugar_ring_bond_rmsd s < 0.040
            else sugar_ring_bond_rmsd s < 0.035)
       \<and> sugar_diag_angles_rmsd s =
           (if length (sugar_ring_elements s) = 5
            then sugar_ring_angle_rmsd s > 4.0 \<and> sugar_ring_angle_rmsd s < 7.5
            else sugar_ring_angle_rmsd s < 4.0)
       \<and> sugar_sane s =
           (sugar_diag_angles_rmsd s \<and> sugar_diag_bonds_rmsd s
              \<and> sugar_diag_anomer s \<and> sugar_diag_chirality s \<and> sugar_diag_ring s)"
  using assms(1)
proof (cases rule: ring_analysis_result)
  case (1 s1 s6)
  from 1(4) assms(2) have f: "sugar_found_db s6" by simp
  from diagnostics_found [OF 1(3) f] obtain e where e:
    "database_entry db (sugar_index s6) = Some e"
    "sugar_diag_chirality s =
           ((sugar_handedness s6 \<noteq> ''D'' \<and> handedness e \<noteq> ''D'')
            \<or> (sugar_handedness s6 \<noteq> ''L'' \<and> handedness e \<noteq> ''L''))"
    "sugar_diag_anomer s =
           ((sugar_anomer s6 = ''alpha'' \<and> anomer e \<noteq> ''B'')
            \<or> (sugar_anomer s6 = ''beta'' \<and> anomer e \<noteq> ''A''))"
    "sugar_diag_bonds_rmsd s =
           (if length (sugar_ring_elements s6) = 5 then sugar_ring_bond_rmsd s6 < 0.040
            else sugar_ring_bond_rmsd s6 < 0.035)"
    "sugar_diag_angles_rmsd s =
           (if length (sugar_ring_elements s6) = 5
            then sugar_ring_angle_rmsd s6 > 4.0 \<and> sugar_ring_angle_rmsd s6 < 7.5
            else sugar_ring_angle_rmsd s6 < 4.0)"
    "sugar_sane s =
           (sugar_sane s6 \<or> (sugar_diag_angles_rmsd s \<and> sugar_diag_bonds_rmsd s
              \<and> sugar_diag_anomer s \<and> sugar_diag_chirality s \<and> sugar_diag_ring s))"
    by blast
  note fr = diagnostics_frame [OF 1(3)]
  show ?thesis
    by (rule exI [of _ e]) (simp add: e fr 1(8))
qed

text \<open>
  C1, amended. For a sugar found in the database whose constructor went on to the
  diagnostics (it did not return inside the template loop, which leaves the
  denomination "    unsupported    " and the flags unset), the anomer flag is true
  exactly when the computed anomer is "alpha" and the reference code is not "B", or
  the computed anomer is "beta" and the reference code is not "A". With a reference
  code "A" or "B" this is: "alpha" pairs with "A" and "beta" pairs with "B".
\<close>

theorem anomer_flag_rule:
  assumes "MSugar_constructor db env raw mm = Some s"
    and "sugar_found_db s"
    and "sugar_denomination s \<noteq> ''    unsupported    ''"
  shows "\<exists>e. database_entry db (sugar_index s) = Some e
       \<and> sugar_diag_anomer s =
           ((sugar_anomer s = ''alpha'' \<and> anomer e \<noteq> ''B'')
            \<or> (sugar_anomer s = ''beta'' \<and> anomer e \<noteq> ''A''))
       \<and> (anomer e \<in> {''A'', ''B''} \<longrightarrow>
            sugar_diag_anomer s =
              ((sugar_anomer s = ''alpha'' \<and> anomer e = ''A'')
               \<or> (sugar_anomer s = ''beta'' \<and> anomer e = ''B'')))"
proof -
  from assms(1,3) obtain s3 where a: "ring_analysis db env (atom_list mm) s3 = Some s"
    and f: "sugar_found_db s3 = sugar_found_db s"
    by (rule constructor_completed)
  from assms(2) f have "sugar_found_db s3" by simp
  from ring_analysis_diagnosed [OF a this] obtain e where
    e: "database_entry db (sugar_index s) = Some e"
    and d: "sugar_diag_anomer s =
           ((sugar_anomer s = ''alpha'' \<and> anomer e \<noteq> ''B'')
            \<or> (sugar_anomer s = ''beta'' \<and> anomer e \<noteq> ''A''))"
    by blast
  show ?thesis
    by (rule exI [of _ e]) (use e d in auto)
qed


text \<open>
  C10. The stored alternate-conformation code of a constructed sugar is never
  " :A". When the sugar is found in the database and the template loop reaches a
  ring-atom name \<open>b\<close> (no name before it fails) whose atom has an occupancy below 1
  and a non-blank alternate-conformation code, and the ":A" or the ":B" lookup for
  \<open>b\<close> succeeds, then the stored code is " :B", also when it was the ":A" lookup
  that succeeded.
\<close>

theorem altconf_code_ends_B:
  assumes "MSugar_constructor db env raw mm = Some s"
  shows "sugar_alternate_confcode s \<noteq> '' :A''
       \<and> (\<forall>i pre b post.
             lookup_database_from db (trim (mm_type mm)) 0 = Some i
             \<and> i < length db
             \<and> split_blank (trim (ring_atoms (db ! i))) = pre @ b # post
             \<and> (\<forall>x\<in>set pre. \<not> template_fails (atom_list mm) x)
             \<and> resolved_through_altconf (atom_list mm) b
             \<longrightarrow> sugar_alternate_confcode s = '' :B'')"
proof -
  have kept: "sugar_alternate_confcode s' = sugar_alternate_confcode s3"
    if "ring_analysis db env (atom_list mm) s3 = Some s'" for s3 s'
    using that
  proof (cases rule: ring_analysis_result)
    case (1 s1 s6)
    with diagnostics_frame [OF 1(3)] show ?thesis by simp
  qed
  from assms show ?thesis
  proof (cases rule: constructor_cases)
    case (returned i e)
    let ?buffer = "split_blank (trim (ring_atoms e))"
    from returned(2) have e: "i < length db" "e = db ! i"
      by (auto simp: database_entry_def split: if_splits)
    from template_ring_frame [of ?buffer "found_sugar raw mm i"] returned(3)
    have "sugar_alternate_confcode s = '' '' \<or> sugar_alternate_confcode s = '' :B''" by simp
    moreover have "sugar_alternate_confcode s = '' :B''"
      if "?buffer = pre @ b # post" "\<forall>x\<in>set pre. \<not> template_fails (atom_list mm) x"
        "resolved_through_altconf (atom_list mm) b" for pre b post
      using template_ring_altconf [of pre "found_sugar raw mm i" b post] that returned(3) by simp
    ultimately show ?thesis using returned(1) e by auto
  next
    case (template i e s3)
    let ?buffer = "split_blank (trim (ring_atoms e))"
    from template(2) have e: "i < length db" "e = db ! i"
      by (auto simp: database_entry_def split: if_splits)
    from template_ring_frame [of ?buffer "found_sugar raw mm i"] template(3)
    have "sugar_alternate_confcode s3 = '' '' \<or> sugar_alternate_confcode s3 = '' :B''" by simp
    moreover have "sugar_alternate_confcode s3 = '' :B''"
      if "?buffer = pre @ b # post" "\<forall>x\<in>set pre. \<not> template_fails (atom_list mm) x"
        "resolved_through_altconf (atom_list mm) b" for pre b post
      using template_ring_altconf [of pre "found_sugar raw mm i" b post] that template(3) by simp
    ultimately show ?thesis using template(1) e kept [OF template(4)] by auto
  next
    case search
    from kept [OF search(2)] search(1) show ?thesis by simp
  qed
qed

subsection \<open>When the analysis completes\<close>

lemma classify_ring_Some:
  assumes "\<forall>a\<in>set (sugar_ring_elements s). lookup (atom_list s) (trim (name a)) ANY \<noteq> - 1"
    and "\<forall>a\<in>set (sugar_ring_elements s). lookup mm (trim (name a)) ANY \<noteq> - 1"
  shows "\<exists>s1. classify_ring env mm s = Some s1"
proof (cases "length (sugar_ring_elements s) = 5")
  case True
  from cremerPople_furanose_Some [OF True assms(1), of env mm] True show ?thesis
    by (auto simp: classify_ring_def)
next
  case n5: False
  show ?thesis
  proof (cases "length (sugar_ring_elements s) = 6")
    case True
    from cremerPople_pyranose_Some [OF True assms, of env] True show ?thesis
      by (auto simp: classify_ring_def)
  next
    case False
    with n5 show ?thesis by (simp add: classify_ring_def)
  qed
qed

text \<open>
  The analysis completes for a ring of at least three atoms that are found by name,
  on an object whose angle and bond vectors are still empty, when the database
  entry, if one was found, exists.
\<close>

lemma ring_analysis_Some:
  assumes "3 \<le> length (sugar_ring_elements s)"
    and "\<forall>a\<in>set (sugar_ring_elements s). lookup (atom_list s) (trim (name a)) ANY \<noteq> - 1"
    and "\<forall>a\<in>set (sugar_ring_elements s). lookup mm (trim (name a)) ANY \<noteq> - 1"
    and "sugar_ring_angles s = []" "sugar_ring_bonds s = []"
    and "sugar_found_db s \<longrightarrow> database_entry db (sugar_index s) \<noteq> None"
  shows "\<exists>s'. ring_analysis db env mm s = Some s'"
proof -
  from classify_ring_Some [OF assms(2,3)] obtain s1 where c: "classify_ring env mm s = Some s1"
    by blast
  note f1 = classify_ring_frame [OF c]
  note f2 = name_sugar_frame [of s1]
  let ?s5 = "(name_sugar s1)\<lparr>sugar_sane := False\<rparr>"
  have "\<exists>b s6. examine_ring ?s5 = Some (b, s6)"
    by (rule examine_ring_Some) (use assms(1,4,5) f1 f2 in simp_all)
  then obtain b s6 where e: "examine_ring ?s5 = Some (b, s6)" by blast
  from examine_ring_shape [OF e] obtain an bo ra rb where
    s6: "s6 = ?s5\<lparr>sugar_ring_angles := an, sugar_ring_bonds := bo,
            sugar_ring_angle_rmsd := ra, sugar_ring_bond_rmsd := rb\<rparr>" by blast
  have "\<exists>s'. diagnostics db (s6\<lparr>sugar_diag_ring := b\<rparr>) = Some s'"
  proof (cases "sugar_found_db s")
    case True
    with assms(6) obtain en where "database_entry db (sugar_index s) = Some en" by auto
    with True f1 f2 show ?thesis
      unfolding s6 by (simp add: diagnostics_def Let_def)
  next
    case False
    with f1 f2 show ?thesis
      unfolding s6 by (simp add: diagnostics_def)
  qed
  with c e assms(1) f1 show ?thesis
    by (auto simp: ring_analysis_def)
qed

section \<open>The examples evaluated\<close>

subsection \<open>The glucose\<close>

text \<open>
  The names of the template are found at full occupancy, the mean plane of the
  chair is the plane \<open>z = 0\<close> with the normal pointing down, the substituent of
  C5 is C6, and the constructor builds a beta-D-aldopyranose.
\<close>

lemmas string_eval = trim_def is_blank_def name_def mk_atom_def id_tidy_def id_match_def
  islower_def toupper_def lookup_def Let_def

lemmas glucose_defs = glucose_atoms_def glucose_ring_def glc_C1_def glc_C2_def glc_C3_def glc_C4_def
  glc_C5_def glc_C6_def glc_O1_def glc_O5_def

lemma glucose_names:
  "map (\<lambda>a. trim (name a)) glucose_ring = [''O5'', ''C1'', ''C2'', ''C3'', ''C4'', ''C5'']"
  by (simp add: glucose_defs string_eval)

lemma glucose_lookups:
  "lookup glucose_atoms ''O5'' ANY = 7" "lookup glucose_atoms ''C1'' ANY = 0"
  "lookup glucose_atoms ''C2'' ANY = 1" "lookup glucose_atoms ''C3'' ANY = 2"
  "lookup glucose_atoms ''C4'' ANY = 3" "lookup glucose_atoms ''C5'' ANY = 4"
  by (simp_all add: glucose_defs string_eval)

lemma example_database_lookup:
  "lookup_database_from example_database (trim ''BGC'') 0 = Some 0"
  "lookup_database_from example_database (trim ''OXT'') 0 = None"
  "lookup_database_from example_database (trim ''XYZ'') 0 = None"
  by (simp_all add: example_database_def trim_def is_blank_def)

lemma example_database_entry:
  "database_entry example_database (db_entry 0) =
     Some \<lparr>name_short = ''BGC'', anomer = ''B'', handedness = ''D'', ring_atoms = ''O5 C1 C2 C3 C4 C5''\<rparr>"
  by (simp add: example_database_def database_entry_def)

lemma template_names:
  "split_blank (trim ''O5 C1 C2 C3 C4 C5'') = [''O5'', ''C1'', ''C2'', ''C3'', ''C4'', ''C5'']"
  by (simp add: split_blank_def trim_def is_blank_def)

lemma template_atom_plain:
  assumes "lookup (atom_list s) b ANY \<noteq> - 1" "\<not> needs_altconf (atom_list s) b"
  shows "template_atom b s =
     Continue (s\<lparr>sugar_ring_elements :=
        sugar_ring_elements s @ [atom_list s ! nat (lookup (atom_list s) b ANY)]\<rparr>)"
  using assms by (auto simp: template_atom_def needs_altconf_def Let_def)

lemma template_atom_conformation_A:
  assumes "needs_altconf (atom_list s) b" "lookup (atom_list s) (trim b @ '' :A'') UNIQUE \<noteq> - 1"
  shows "template_atom b s =
     Continue (s\<lparr>sugar_alternate_confcode := '' :B'',
                 sugar_ring_elements := sugar_ring_elements s
                   @ [atom_list s ! nat (lookup (atom_list s) (trim b @ '' :A'') UNIQUE)]\<rparr>)"
  using assms by (auto simp: template_atom_def needs_altconf_def Let_def)

lemma full_occupancy_plain:
  assumes "\<forall>a\<in>set atoms. \<not> occupancy a < 1"
  shows "\<not> needs_altconf atoms b"
proof
  assume n: "needs_altconf atoms b"
  with lookup_range [of atoms b ANY]
  have "nat (lookup atoms b ANY) < length atoms" by (auto simp: needs_altconf_def)
  then have "atoms ! nat (lookup atoms b ANY) \<in> set atoms" by simp
  with assms n show False by (auto simp: needs_altconf_def)
qed

lemma glucose_plain: "\<not> needs_altconf glucose_atoms b"
  by (rule full_occupancy_plain) (simp add: glucose_defs mk_atom_def)

lemma glucose_template:
  "template_ring [''O5'', ''C1'', ''C2'', ''C3'', ''C4'', ''C5''] (found_sugar raw_sugar glucose 0)
   = Continue ((found_sugar raw_sugar glucose 0)\<lparr>sugar_ring_elements := glucose_ring\<rparr>)"
  by (simp add: template_atom_plain glucose_plain glucose_def glucose_lookups)
     (simp add: glucose_atoms_def glucose_ring_def)

lemma upt_6: "[0..<6] = [0, 1, 2, 3, 4, 5]"
  by code_simp

lemma sixth_turns:
  "sin (pi / 3) = sqrt 3 / 2" "cos (pi / 3) = 1 / 2"
  "sin (pi * 2 / 3) = sqrt 3 / 2" "cos (pi * 2 / 3) = - (1 / 2)"
  "sin (pi * 4 / 3) = - (sqrt 3 / 2)" "cos (pi * 4 / 3) = - (1 / 2)"
  "sin (pi * 5 / 3) = - (sqrt 3 / 2)" "cos (pi * 5 / 3) = 1 / 2"
proof -
  show "sin (pi / 3) = sqrt 3 / 2" by (rule sin_60)
  show "cos (pi / 3) = 1 / 2" by (rule cos_60)
  have a: "pi * 2 / 3 = pi - pi / 3" by simp
  show "sin (pi * 2 / 3) = sqrt 3 / 2"
    using sin_pi_minus [of "pi / 3"] sin_60 by (simp only: a)
  show "cos (pi * 2 / 3) = - (1 / 2)"
    using cos_pi_minus [of "pi / 3"] cos_60 by (simp only: a)
  have b: "pi * 4 / 3 = pi / 3 + pi" by simp
  show "sin (pi * 4 / 3) = - (sqrt 3 / 2)"
    using sin_periodic_pi [of "pi / 3"] sin_60 by (simp only: b)
  show "cos (pi * 4 / 3) = - (1 / 2)"
    using cos_periodic_pi [of "pi / 3"] cos_60 by (simp only: b)
  have c: "pi * 5 / 3 = 2 * pi - pi / 3" by simp
  show "sin (pi * 5 / 3) = - (sqrt 3 / 2)"
    using sin_2pi_minus [of "pi / 3"] sin_60 by (simp only: c)
  show "cos (pi * 5 / 3) = 1 / 2"
    using cos_2pi_minus [of "pi / 3"] cos_60 by (simp only: c)
qed

lemma unit_down: "c < 0 \<Longrightarrow> unit (Vec3 0 0 c) = Vec3 0 0 (- 1)"
  by (simp add: unit_def)

lemma glucose_weighted:
  "weighted_sum sin glucose_coords = Vec3 0 (2.4 * sqrt 3) 0"
  "weighted_sum cos glucose_coords = Vec3 4.2 0 0"
  by (simp_all add: weighted_sum_def glucose_coords_def glucose_defs mk_atom_def upt_6 sixth_turns
      algebra_simps)

lemma glucose_normal: "mean_plane_normal glucose_coords = Vec3 0 0 (- 1)"
  by (simp add: mean_plane_normal_def glucose_weighted unit_down)

lemma vsub_zero [simp]: "vsub v (Vec3 0 0 0) = v"
  by (cases v) simp

lemma glucose_named_coords:
  "those (map (named_coord glucose_atoms) [''O5'', ''C1'', ''C2'', ''C3'', ''C4'', ''C5''])
   = Some glucose_coords"
  by (simp add: named_coord_def atom_at_def glucose_lookups)
     (simp add: glucose_coords_def glucose_atoms_def glucose_ring_def)

lemma glucose_centre: "centre_of glucose_coords 6 = Vec3 0 0 0"
  by (simp add: centre_of_def vdiv_def glucose_coords_def glucose_defs mk_atom_def)

lemma glucose_projection:
  "project_ring glucose_atoms glucose_atoms [''O5'', ''C1'', ''C2'', ''C3'', ''C4'', ''C5'']
   = Some \<lparr>pr_centre = Vec3 0 0 0, pr_normal = Vec3 0 0 (- 1),
           pr_z = [0.25, - 0.25, 0.25, - 0.25, 0.25, - 0.25]\<rparr>"
proof -
  have shifted: "those (map (named_coord (map (transform (shift_to (Vec3 0 0 0))) glucose_atoms))
                   [''O5'', ''C1'', ''C2'', ''C3'', ''C4'', ''C5'']) = Some glucose_coords"
    unfolding named_coord_map_transform [abs_def] rtop_shift those_map_map_option
      glucose_named_coords
    by simp
  have z: "map (\<lambda>p. dot p (Vec3 0 0 (- 1))) glucose_coords
           = [0.25, - 0.25, 0.25, - 0.25, 0.25, - 0.25]"
    by (simp add: glucose_coords_def glucose_defs mk_atom_def)
  show ?thesis
    unfolding project_ring_def glucose_named_coords
    by (simp add: glucose_centre shifted glucose_normal z Let_def del: list.map)
qed

lemma coord_length_less:
  assumes "0 \<le> r"
  shows "coord_length a b < r \<longleftrightarrow> dot (vsub a b) (vsub a b) < r\<^sup>2"
proof -
  have "coord_length a b < r \<longleftrightarrow> sqrt (dot (vsub a b) (vsub a b)) < sqrt (r\<^sup>2)"
    using assms by (simp add: coord_length_def)
  then show ?thesis by (simp only: real_sqrt_less_iff)
qed

lemma glucose_sugar_fields [simp]:
  "atom_list glucose_sugar = glucose_atoms"
  "sugar_ring_elements glucose_sugar = glucose_ring"
  "sugar_found_db glucose_sugar = True"
  "sugar_index glucose_sugar = db_entry 0"
  "sugar_ring_angles glucose_sugar = []"
  "sugar_ring_bonds glucose_sugar = []"
  "sugar_alternate_confcode glucose_sugar = '' ''"
  by (simp_all add: glucose_sugar_def glucose_def)

lemma glucose_env_fields [simp]:
  "atoms_near glucose_env c r = glucose_atoms"
  "get_stereochemistry glucose_env ring = ((glc_C1, glc_O1), (glc_C5, glc_C6))"
  by (simp_all add: glucose_env_def example_env_def)

lemma glucose_ring_nth:
  "glucose_ring ! 5 = glc_C5" "glucose_ring ! 1 = glc_C1" "length glucose_ring = 6"
  "take 6 glucose_ring = glucose_ring"
  by (simp_all add: glucose_ring_def)

lemma glucose_in_ring:
  "is_part_of_ring glc_C1 glucose_ring" "is_part_of_ring glc_C2 glucose_ring"
  "is_part_of_ring glc_C3 glucose_ring" "is_part_of_ring glc_C4 glucose_ring"
  "is_part_of_ring glc_C5 glucose_ring" "is_part_of_ring glc_O5 glucose_ring"
  "\<not> is_part_of_ring glc_C6 glucose_ring" "\<not> is_part_of_ring glc_O1 glucose_ring"
  by (simp_all add: glucose_defs string_eval)

lemma glucose_substituent: "nz6_substituent glucose_env glucose_ring = glc_C6"
proof -
  have xxx: "trim (name (set_id default_MAtom ''XXX'')) = ''XXX''" by (rule name_XXX)
  have ring: "nz6_step glc_C5 glucose_ring sub a = sub" if "is_part_of_ring a glucose_ring" for sub a
    using that by (simp add: nz6_step_def)
  have near: "coord_length (coord_orth glc_C6) (coord_orth glc_C5) < 1.8"
    by (subst coord_length_less) (simp_all add: glucose_defs mk_atom_def power2_eq_square)
  have far: "\<not> coord_length (coord_orth glc_O1) (coord_orth glc_C5) < 1.8"
    by (subst coord_length_less) (simp_all add: glucose_defs mk_atom_def power2_eq_square)
  have el: "trim (element glc_C6) = ''C''" "trim (name glc_C6) = ''C6''" "trim (name glc_C5) = ''C5''"
    "occupancy glc_C5 = occupancy glc_C6"
    by (simp_all add: glucose_defs string_eval)
  have c6: "nz6_step glc_C5 glucose_ring (set_id default_MAtom ''XXX'') glc_C6 = glc_C6"
    unfolding nz6_step_def using near el xxx glucose_in_ring by simp
  have o1: "nz6_step glc_C5 glucose_ring glc_C6 glc_O1 = glc_C6"
    unfolding nz6_step_def using far by simp
  show ?thesis
    by (simp add: nz6_substituent_def glucose_ring_nth)
       (simp add: glucose_atoms_def ring glucose_in_ring c6 o1)
qed

lemma glucose_cremer_pople:
  "\<exists>cp s'. cremerPople_pyranose glucose_env glucose_atoms glucose_sugar = Some (cp, s')
      \<and> sugar_anomer s' = ''beta'' \<and> sugar_handedness s' = ''D''"
proof -
  have names: "map (\<lambda>a. trim (name a)) (take 6 glucose_ring) = [''O5'', ''C1'', ''C2'', ''C3'', ''C4'', ''C5'']"
    by (simp add: glucose_ring_nth glucose_names)
  have rev: "lurd_reverse ((glc_C1, glc_O1), (glc_C5, glc_C6)) glc_C5 glucose_ring"
    by (simp add: lurd_reverse_def glucose_defs string_eval)
  have an: "stereo_anomer ((glc_C1, glc_O1), (glc_C5, glc_C6)) True
              \<lparr>pr_centre = Vec3 0 0 0, pr_normal = Vec3 0 0 (- 1),
               pr_z = [0.25, - 0.25, 0.25, - 0.25, 0.25, - 0.25]\<rparr> = anomer_beta"
    by (simp add: stereo_anomer_def anomer_decision_def transform_def rtop_shift Let_def)
       (simp add: glucose_defs mk_atom_def)
  have hd: "handedness_of (transform (shift_to (Vec3 0 0 0)) glc_C6) glucose_ring (- 0.25)
              (dot (coord_orth (transform (shift_to (Vec3 0 0 0)) glc_C6)) (Vec3 0 0 (- 1))) = ''D''"
    by (simp add: handedness_of_def glucose_in_ring transform_def rtop_shift)
       (simp add: glucose_defs string_eval)
  show ?thesis
    unfolding cremerPople_pyranose_def using an hd
    by (simp add: Let_def glucose_ring_nth glucose_names glucose_projection glucose_substituent
          rev del: list.map)
qed

lemma glucose_constructor_unfold:
  "MSugar_constructor example_database glucose_env raw_sugar glucose
   = ring_analysis example_database glucose_env glucose_atoms glucose_sugar"
proof -
  have g: "mm_type glucose = ''BGC''" "atom_list glucose = glucose_atoms"
    by (simp_all add: glucose_def)
  show ?thesis
    unfolding constructor_unfold g
    by (simp add: example_database_lookup example_database_entry template_names
          glucose_template glucose_sugar_def del: template_ring.simps)
qed

lemma glucose_resolvable:
  "\<forall>a\<in>set glucose_ring. lookup glucose_atoms (trim (name a)) ANY \<noteq> - 1"
proof -
  have "\<forall>n\<in>set (map (\<lambda>a. trim (name a)) glucose_ring). lookup glucose_atoms n ANY \<noteq> - 1"
    unfolding glucose_names by (simp add: glucose_lookups)
  then show ?thesis by simp
qed

lemma glucose_constructed:
  "\<exists>s. MSugar_constructor example_database glucose_env raw_sugar glucose = Some s
      \<and> sugar_found_db s \<and> sugar_index s = db_entry 0 \<and> sugar_ring_elements s = glucose_ring
      \<and> sugar_anomer s = ''beta'' \<and> sugar_handedness s = ''D''
      \<and> sugar_denomination s = ''beta-D-aldopyranose''"
proof -
  have "\<exists>s. ring_analysis example_database glucose_env glucose_atoms glucose_sugar = Some s"
    by (rule ring_analysis_Some)
       (use glucose_resolvable in \<open>simp_all add: glucose_ring_nth example_database_entry\<close>)
  then obtain s where s: "ring_analysis example_database glucose_env glucose_atoms glucose_sugar = Some s"
    by blast
  from s show ?thesis
  proof (cases rule: ring_analysis_result)
    case (1 s1 s6)
    note d = diagnostics_frame [OF 1(3)]
    from 1(1) have an: "sugar_anomer s1 = ''beta'' \<and> sugar_handedness s1 = ''D''
        \<and> sugar_ring_elements s1 = glucose_ring"
    proof (cases rule: classify_ring_cases)
      case (pyranose cp s')
      with glucose_cremer_pople cremerPople_pyranose_frame [OF pyranose(2)] show ?thesis by auto
    qed (simp_all add: glucose_ring_nth)
    have nm: "sugar_denomination (name_sugar s1) = ''beta-D-aldopyranose''"
      unfolding name_sugar_denomination using an
      by (simp add: glucose_ring_nth) (simp add: glucose_defs string_eval)
    from s 1 d an nm show ?thesis
      unfolding glucose_constructor_unfold by (intro exI [of _ s]) simp
  qed
qed

subsection \<open>The four-membered ring\<close>

text \<open>A ring of a size other than five or six, once the analysis has completed.\<close>

lemma ring_analysis_other_size:
  assumes "ring_analysis db env mm s = Some s'"
    and "length (sugar_ring_elements s) \<noteq> 5" "length (sugar_ring_elements s) \<noteq> 6"
  shows "\<not> sugar_supported s' \<and> sugar_anomer s' = ''X'' \<and> sugar_handedness s' = ''X''
       \<and> sugar_denomination s' =
           ''X-X-'' @ (if str_contains (trim (name (sugar_ring_elements s ! 1))) ''C1''
                       then ''aldo'' else ''keto'') @ ''pyranose''"
  using assms(1)
proof (cases rule: ring_analysis_result)
  case (1 s1 s6)
  from classify_ring_unsupported [OF assms(2,3), of env mm] 1(1)
  have s1: "s1 = mark_unsupported s" by simp
  note d = diagnostics_frame [OF 1(3)]
  from 1 d assms(2,3) show ?thesis
    unfolding s1 name_sugar_denomination by simp
qed

lemmas oxetane_defs = oxetane_def oxetane_ring_def oxt_O1_def oxt_C1_def oxt_C2_def oxt_C3_def

lemma oxetane_constructor_unfold:
  "MSugar_constructor example_database oxetane_env raw_sugar oxetane
   = ring_analysis example_database oxetane_env (atom_list oxetane)
       (unlisted_sugar oxetane_env raw_sugar oxetane)"
proof -
  have g: "mm_type oxetane = ''OXT''" by (simp add: oxetane_def)
  show ?thesis unfolding constructor_unfold g by (simp add: example_database_lookup)
qed

lemma oxetane_ring_found [simp]:
  "sugar_ring_elements (unlisted_sugar oxetane_env raw_sugar oxetane) = oxetane_ring"
  by (simp add: oxetane_env_def example_env_def)

lemma oxetane_resolvable:
  "\<forall>a\<in>set oxetane_ring. lookup (atom_list oxetane) (trim (name a)) ANY \<noteq> - 1"
  by (simp add: oxetane_defs string_eval)

text \<open>
  C2. The claim is that a sugar whose ring has a size other than 5 or 6 keeps the
  denomination "    unsupported    " and that its analysis stops there. The branch
  for such a ring sets the five members and does not return (the two branches of
  the template loop that set the same members do): the denomination is built anew
  from the anomer "X", the handedness "X" and the ring, and the ring examination
  and the diagnostics run. For the four-membered ring of the example, which is not
  in the database, the constructed sugar is unsupported, has anomer and handedness
  "X", the denomination "X-X-aldopyranose", and the anomer flag, true in the
  storage the constructor started from, set to false by the diagnostics.
\<close>

theorem unsupported_ring_is_renamed:
  "map_option sugar_supported
     (MSugar_constructor example_database oxetane_env raw_sugar oxetane) = Some False
   \<and> map_option sugar_anomer
       (MSugar_constructor example_database oxetane_env raw_sugar oxetane) = Some ''X''
   \<and> map_option sugar_handedness
       (MSugar_constructor example_database oxetane_env raw_sugar oxetane) = Some ''X''
   \<and> map_option sugar_denomination
       (MSugar_constructor example_database oxetane_env raw_sugar oxetane)
       = Some ''X-X-aldopyranose''
   \<and> map_option sugar_denomination
       (MSugar_constructor example_database oxetane_env raw_sugar oxetane)
       \<noteq> Some ''    unsupported    ''
   \<and> sugar_diag_anomer raw_sugar
   \<and> map_option sugar_diag_anomer
       (MSugar_constructor example_database oxetane_env raw_sugar oxetane) = Some False"
proof -
  let ?s = "unlisted_sugar oxetane_env raw_sugar oxetane"
  have "\<exists>s'. ring_analysis example_database oxetane_env (atom_list oxetane) ?s = Some s'"
    by (rule ring_analysis_Some)
       (use oxetane_resolvable in \<open>simp_all add: oxetane_env_def example_env_def oxetane_ring_def\<close>)
  then obtain s' where s': "ring_analysis example_database oxetane_env (atom_list oxetane) ?s = Some s'"
    by blast
  have "length (sugar_ring_elements ?s) \<noteq> 5" "length (sugar_ring_elements ?s) \<noteq> 6"
    by (simp_all add: oxetane_env_def example_env_def oxetane_ring_def)
  from ring_analysis_other_size [OF s' this]
  have a: "\<not> sugar_supported s' \<and> sugar_anomer s' = ''X'' \<and> sugar_handedness s' = ''X''
       \<and> sugar_denomination s' = ''X-X-aldopyranose''"
    by (simp add: oxetane_env_def example_env_def oxetane_defs string_eval)
  from s' have b: "\<not> sugar_diag_anomer s'"
  proof (cases rule: ring_analysis_result)
    case (1 s1 s6)
    from 1(4) have "\<not> sugar_found_db s6" by simp
    from diagnostics_not_found [OF 1(3) this] show ?thesis by simp
  qed
  have r: "sugar_diag_anomer raw_sugar" by (simp add: raw_sugar_def)
  from a b r s' show ?thesis unfolding oxetane_constructor_unfold by simp
qed

subsection \<open>The disordered glucose\<close>

text \<open>
  The template name C1 finds an atom of occupancy 0.5 with the code A; the lookup
  of "C1 :A" succeeds, and the stored code is " :B".
\<close>

lemmas disordered_defs = disordered_atoms_def disordered_ring_def glc_C1_A_def glc_C1_B_def
  glc_C2_def glc_C3_def glc_C4_def glc_C5_def glc_C6_def glc_O1_def glc_O5_def

lemma disordered_fields:
  "mm_type disordered_glucose = ''BGC''" "atom_list disordered_glucose = disordered_atoms"
  by (simp_all add: disordered_glucose_def disordered_atoms_def)

lemma disordered_lookups:
  "lookup disordered_atoms ''O5'' ANY = 8" "lookup disordered_atoms ''C1'' ANY = 0"
  "lookup disordered_atoms ''C2'' ANY = 2" "lookup disordered_atoms ''C3'' ANY = 3"
  "lookup disordered_atoms ''C4'' ANY = 4" "lookup disordered_atoms ''C5'' ANY = 5"
  "lookup disordered_atoms ''C1 :A'' UNIQUE = 0"
  by (simp_all add: disordered_defs string_eval)

lemma disordered_needs:
  "needs_altconf disordered_atoms ''C1''"
  "\<not> needs_altconf disordered_atoms ''O5''" "\<not> needs_altconf disordered_atoms ''C2''"
  "\<not> needs_altconf disordered_atoms ''C3''" "\<not> needs_altconf disordered_atoms ''C4''"
  "\<not> needs_altconf disordered_atoms ''C5''"
  unfolding needs_altconf_def disordered_lookups
  by (simp_all add: disordered_defs mk_atom_def get_altconf_def)

lemma disordered_template:
  "template_ring [''O5'', ''C1'', ''C2'', ''C3'', ''C4'', ''C5''] (found_sugar raw_sugar disordered_glucose 0)
   = Continue disordered_sugar"
  by (simp add: template_atom_plain template_atom_conformation_A disordered_fields
        disordered_needs disordered_lookups trim_def is_blank_def)
     (simp add: disordered_sugar_def disordered_atoms_def disordered_ring_def)

lemma disordered_constructor_unfold:
  "MSugar_constructor example_database disordered_env raw_sugar disordered_glucose
   = ring_analysis example_database disordered_env disordered_atoms disordered_sugar"
  unfolding constructor_unfold disordered_fields
  by (simp add: example_database_lookup example_database_entry template_names
        disordered_template del: template_ring.simps)

lemma disordered_sugar_fields [simp]:
  "atom_list disordered_sugar = disordered_atoms"
  "sugar_ring_elements disordered_sugar = disordered_ring"
  "sugar_found_db disordered_sugar = True"
  "sugar_index disordered_sugar = db_entry 0"
  "sugar_ring_angles disordered_sugar = []"
  "sugar_ring_bonds disordered_sugar = []"
  by (simp_all add: disordered_sugar_def disordered_fields)

lemma disordered_resolvable:
  "\<forall>a\<in>set disordered_ring. lookup disordered_atoms (trim (name a)) ANY \<noteq> - 1"
proof -
  have n: "map (\<lambda>a. trim (name a)) disordered_ring = [''O5'', ''C1'', ''C2'', ''C3'', ''C4'', ''C5'']"
    by (simp add: disordered_defs string_eval)
  have "\<forall>n\<in>set (map (\<lambda>a. trim (name a)) disordered_ring). lookup disordered_atoms n ANY \<noteq> - 1"
    unfolding n by (simp add: disordered_lookups)
  then show ?thesis by simp
qed

lemma disordered_constructed:
  "\<exists>s. MSugar_constructor example_database disordered_env raw_sugar disordered_glucose = Some s"
  unfolding disordered_constructor_unfold
  by (rule ring_analysis_Some)
     (use disordered_resolvable in \<open>simp_all add: disordered_ring_def example_database_entry\<close>)

theorem altconf_code_ends_B_witness:
  "\<exists>s. MSugar_constructor example_database disordered_env raw_sugar disordered_glucose = Some s
      \<and> lookup_database_from example_database (trim (mm_type disordered_glucose)) 0 = Some 0
      \<and> split_blank (trim (ring_atoms (example_database ! 0)))
          = [''O5''] @ ''C1'' # [''C2'', ''C3'', ''C4'', ''C5'']
      \<and> \<not> template_fails (atom_list disordered_glucose) ''O5''
      \<and> resolved_through_altconf (atom_list disordered_glucose) ''C1''
      \<and> lookup (atom_list disordered_glucose) (trim ''C1'' @ '' :A'') UNIQUE = 0
      \<and> sugar_alternate_confcode s = '' :B''"
proof -
  from disordered_constructed obtain s where
    s: "MSugar_constructor example_database disordered_env raw_sugar disordered_glucose = Some s"
    by blast
  have db: "lookup_database_from example_database (trim (mm_type disordered_glucose)) 0 = Some 0"
    by (simp add: disordered_fields example_database_lookup)
  have len: "0 < length example_database" by (simp add: example_database_def)
  have names: "split_blank (trim (ring_atoms (example_database ! 0)))
          = [''O5''] @ ''C1'' # [''C2'', ''C3'', ''C4'', ''C5'']"
    by (simp add: example_database_def template_names)
  have pre: "\<forall>x\<in>set [''O5'']. \<not> template_fails (atom_list disordered_glucose) x"
    by (simp add: template_fails_def disordered_fields disordered_needs disordered_lookups)
  have a: "lookup (atom_list disordered_glucose) (trim ''C1'' @ '' :A'') UNIQUE = 0"
    by (simp add: disordered_fields disordered_lookups trim_def is_blank_def)
  have b: "resolved_through_altconf (atom_list disordered_glucose) ''C1''"
    using a by (simp add: resolved_through_altconf_def disordered_fields disordered_needs)
  from altconf_code_ends_B [OF s] db len names pre b
  have "sugar_alternate_confcode s = '' :B''" by blast
  with s db names pre a b show ?thesis by simp
qed

subsection \<open>The flags and the puckering of the glucose\<close>

lemma sentinel_differs: "''beta-D-aldopyranose'' \<noteq> ''    unsupported    ''"
  by simp

text \<open>
  The glucose of the example has the reference code "B". Whatever its
  surroundings are (the spatial index, the stereochemistry search) and whatever
  the storage held, a constructed object has its anomer flag true exactly when its
  computed anomer is "beta", and false when it is "alpha".
\<close>

lemma glucose_template_any:
  "template_ring [''O5'', ''C1'', ''C2'', ''C3'', ''C4'', ''C5''] (found_sugar raw glucose 0)
   = Continue ((found_sugar raw glucose 0)\<lparr>sugar_ring_elements := glucose_ring\<rparr>)"
  by (simp add: template_atom_plain glucose_plain glucose_def glucose_lookups)
     (simp add: glucose_atoms_def glucose_ring_def)

lemma glucose_reference_B:
  assumes "MSugar_constructor example_database env raw glucose = Some s"
  shows "sugar_diag_anomer s = (sugar_anomer s = ''beta'')"
proof -
  let ?s3 = "(found_sugar raw glucose 0)\<lparr>sugar_ring_elements := glucose_ring\<rparr>"
  have g: "mm_type glucose = ''BGC''" "atom_list glucose = glucose_atoms"
    by (simp_all add: glucose_def)
  from assms have a: "ring_analysis example_database env glucose_atoms ?s3 = Some s"
    unfolding constructor_unfold g
    by (simp add: example_database_lookup example_database_entry template_names
          glucose_template_any del: template_ring.simps)
  have i: "sugar_index s = db_entry 0"
    using a
  proof (cases rule: ring_analysis_result)
    case (1 s1 s6)
    with diagnostics_frame [OF 1(3)] show ?thesis by simp
  qed
  from ring_analysis_diagnosed [OF a] i show ?thesis
    by (auto simp: example_database_entry)
qed

text \<open>
  C1, as the claim states it, fails: the claim pairs a computed "beta" with the
  reference code "A" and makes the flag false for every other combination. The
  glucose of the example is found in the database with the reference code "B", its
  computed anomer is "beta", and its anomer flag is true. (Had the anomer been
  computed as "alpha", the flag would be false, by the lemma above, where the
  claim pairs "alpha" with "B".)
\<close>

theorem anomer_flag_not_inverted:
  "map_option sugar_found_db (MSugar_constructor example_database glucose_env raw_sugar glucose) = Some True
   \<and> map_option sugar_index (MSugar_constructor example_database glucose_env raw_sugar glucose)
       = Some (db_entry 0)
   \<and> map_option anomer (database_entry example_database (db_entry 0)) = Some ''B''
   \<and> map_option sugar_anomer (MSugar_constructor example_database glucose_env raw_sugar glucose)
       = Some ''beta''
   \<and> map_option sugar_diag_anomer (MSugar_constructor example_database glucose_env raw_sugar glucose)
       = Some True"
proof -
  from glucose_constructed obtain s where
    s: "MSugar_constructor example_database glucose_env raw_sugar glucose = Some s"
    and f: "sugar_found_db s" "sugar_index s = db_entry 0" "sugar_anomer s = ''beta''"
    and d: "sugar_denomination s = ''beta-D-aldopyranose''"
    by blast
  from d have d': "sugar_denomination s \<noteq> ''    unsupported    ''" by simp
  from s d' obtain s3 where s3: "ring_analysis example_database glucose_env (atom_list glucose) s3 = Some s"
    "sugar_found_db s3 = sugar_found_db s"
    by (rule constructor_completed)
  from ring_analysis_diagnosed [OF s3(1)] s3(2) f
  have "sugar_diag_anomer s" by (simp add: example_database_entry)
  with s f show ?thesis by (simp add: example_database_entry)
qed

theorem anomer_flag_rule_witness:
  "\<exists>s. MSugar_constructor example_database glucose_env raw_sugar glucose = Some s
      \<and> sugar_found_db s
      \<and> sugar_denomination s \<noteq> ''    unsupported    ''
      \<and> database_entry example_database (sugar_index s)
          = Some \<lparr>name_short = ''BGC'', anomer = ''B'', handedness = ''D'',
                  ring_atoms = ''O5 C1 C2 C3 C4 C5''\<rparr>
      \<and> sugar_anomer s = ''beta''
      \<and> sugar_diag_anomer s"
proof -
  from glucose_constructed obtain s where
    s: "MSugar_constructor example_database glucose_env raw_sugar glucose = Some s"
    and f: "sugar_found_db s" "sugar_index s = db_entry 0" "sugar_anomer s = ''beta''"
    and d: "sugar_denomination s = ''beta-D-aldopyranose''"
    by blast
  from d have d': "sugar_denomination s \<noteq> ''    unsupported    ''" by simp
  from anomer_flag_rule [OF s f(1) d'] f
  have "sugar_diag_anomer s" by (simp add: example_database_entry)
  with s f d' show ?thesis by (simp add: example_database_entry)
qed


lemma example_rotation_is_rotation: "is_rotation example_rotation"
  by (simp add: is_rotation_def example_rotation_def mat_identity_def)

lemma glucose_ring_names:
  "map (\<lambda>a. trim (name a)) (take 6 (sugar_ring_elements glucose_sugar))
   = [''O5'', ''C1'', ''C2'', ''C3'', ''C4'', ''C5'']"
  by (simp add: glucose_ring_nth glucose_names)

theorem amplitude_rotation_invariant_witness:
  "is_rotation example_rotation
   \<and> map_option (\<lambda>pr. \<Sum>z\<leftarrow>pr_z pr. z\<^sup>2)
       (project_ring (map (transform (rotation_about_origin example_rotation)) glucose_atoms)
          (map (transform (rotation_about_origin example_rotation)) glucose_atoms)
          [''O5'', ''C1'', ''C2'', ''C3'', ''C4'', ''C5''])
     = Some (3 / 8)
   \<and> map_option (\<lambda>r. fst r ! 0)
       (cremerPople_pyranose glucose_env
          (map (transform (rotation_about_origin example_rotation)) glucose_atoms)
          (glucose_sugar\<lparr>atom_list := map (transform (rotation_about_origin example_rotation))
                                        (atom_list glucose_sugar),
             sugar_ring_elements := map (transform (rotation_about_origin example_rotation))
                                      (sugar_ring_elements glucose_sugar)\<rparr>))
     = map_option (\<lambda>r. fst r ! 0) (cremerPople_pyranose glucose_env glucose_atoms glucose_sugar)"
proof -
  note h = amplitude_rotation_invariant [OF example_rotation_is_rotation,
      of glucose_atoms glucose_atoms "[''O5'', ''C1'', ''C2'', ''C3'', ''C4'', ''C5'']"
         glucose_env glucose_sugar glucose_env]
  have r: "map_option (\<lambda>pr. \<Sum>z\<leftarrow>pr_z pr. z\<^sup>2)
             (project_ring glucose_atoms glucose_atoms [''O5'', ''C1'', ''C2'', ''C3'', ''C4'', ''C5''])
           = Some (3 / 8)"
    unfolding glucose_projection by (simp add: power2_eq_square)
  show ?thesis
    by (intro conjI) (rule example_rotation_is_rotation, rule trans [OF conjunct1 [OF h] r],
        rule conjunct2 [OF h])
qed

theorem pyranose_puckering_parameters_witness:
  "\<exists>cp s'. cremerPople_pyranose glucose_env glucose_atoms glucose_sugar = Some (cp, s')
      \<and> cp ! 0 = Num (sqrt (3 / 8))
      \<and> cp ! 4 = Num (sqrt (1 / 6) * (3 / 2))
      \<and> cp ! 2 = Num (arccos (sqrt (1 / 6) * (3 / 2) / sqrt (3 / 8)) * (180 / pi))
      \<and> cp ! 3 = Num (sqrt (3 / 8) * sin (arccos (sqrt (1 / 6) * (3 / 2) / sqrt (3 / 8))))"
proof -
  from glucose_cremer_pople obtain cp s' where
    c: "cremerPople_pyranose glucose_env glucose_atoms glucose_sugar = Some (cp, s')"
    by blast
  from pyranose_puckering_parameters [OF c] obtain pr where
    pr: "project_ring (atom_list glucose_sugar) glucose_atoms
           (map (\<lambda>a. trim (name a)) (take 6 (sugar_ring_elements glucose_sugar))) = Some pr"
    and v: "(let z1 = pr_z pr ! 0; z2 = pr_z pr ! 1; z3 = pr_z pr ! 2;
             z4 = pr_z pr ! 3; z5 = pr_z pr ! 4; z6 = pr_z pr ! 5;
             amplitude = sqrt (z1\<^sup>2 + z2\<^sup>2 + z3\<^sup>2 + z4\<^sup>2 + z5\<^sup>2 + z6\<^sup>2);
             q3 = sqrt (1 / 6) * (z1 + z3 + z5 - z2 - z4 - z6);
             theta = arccos (q3 / amplitude)
         in cp ! 0 = Num amplitude
            \<and> cp ! 4 = Num q3
            \<and> cp ! 2 = Num (theta * (180 / pi))
            \<and> cp ! 3 = Num (amplitude * sin theta))"
    by blast
  from pr have p: "pr = \<lparr>pr_centre = Vec3 0 0 0, pr_normal = Vec3 0 0 (- 1),
           pr_z = [0.25, - 0.25, 0.25, - 0.25, 0.25, - 0.25]\<rparr>"
    unfolding glucose_ring_names by (simp add: glucose_projection)
  have z: "pr_z pr ! 0 = 0.25" "pr_z pr ! 1 = - 0.25" "pr_z pr ! 2 = 0.25"
    "pr_z pr ! 3 = - 0.25" "pr_z pr ! 4 = 0.25" "pr_z pr ! 5 = - 0.25"
    by (simp_all add: p)
  have a: "(0.25::real)\<^sup>2 + (- 0.25)\<^sup>2 + 0.25\<^sup>2 + (- 0.25)\<^sup>2 + 0.25\<^sup>2 + (- 0.25)\<^sup>2 = 3 / 8"
    by (simp add: power2_eq_square)
  have q: "(0.25::real) + 0.25 + 0.25 - (- 0.25) - (- 0.25) - (- 0.25) = 3 / 2"
    by simp
  from v have "cp ! 0 = Num (sqrt (3 / 8))
      \<and> cp ! 4 = Num (sqrt (1 / 6) * (3 / 2))
      \<and> cp ! 2 = Num (arccos (sqrt (1 / 6) * (3 / 2) / sqrt (3 / 8)) * (180 / pi))
      \<and> cp ! 3 = Num (sqrt (3 / 8) * sin (arccos (sqrt (1 / 6) * (3 / 2) / sqrt (3 / 8))))"
    unfolding Let_def z a q .
  with c show ?thesis by blast
qed

subsection \<open>The five-membered ring\<close>

text \<open>
  Every atom near the ring-closing carbon C4 is in the ring: no substituent is
  found and the handedness is "N". The glucose has the handedness "D".
\<close>

lemmas furanose_defs = furanose_def furanose_ring_def fur_O4_def fur_C1_def fur_C2_def
  fur_C3_def fur_C4_def

lemma furanose_sugar_fields [simp]:
  "atom_list furanose_sugar = atom_list furanose"
  "sugar_ring_elements furanose_sugar = furanose_ring"
  by (simp_all add: furanose_sugar_def example_env_def)

lemma furanose_resolvable:
  "\<forall>a\<in>set furanose_ring. lookup (atom_list furanose) (trim (name a)) ANY \<noteq> - 1"
  by (simp add: furanose_defs string_eval)

lemma furanose_all_in_ring:
  "\<forall>a\<in>set (atom_list furanose). is_part_of_ring a furanose_ring"
  by (simp add: furanose_defs string_eval)

lemma furanose_substituent:
  "nz5_substituent furanose_env furanose_ring = set_id default_MAtom ''XXX''"
  using nz5_substituent_cases [of furanose_env furanose_ring] furanose_all_in_ring
  by (auto simp: furanose_env_def example_env_def)

theorem handedness_rule_witness:
  "(\<exists>cp s' pr. cremerPople_pyranose glucose_env glucose_atoms glucose_sugar = Some (cp, s')
       \<and> project_ring (atom_list glucose_sugar) glucose_atoms
           (map (\<lambda>a. trim (name a)) (take 6 (sugar_ring_elements glucose_sugar))) = Some pr
       \<and> nz6_substituent glucose_env (sugar_ring_elements glucose_sugar) = glc_C6
       \<and> sugar_handedness s' = ''D''
       \<and> pr_z pr ! 5 - dot (coord_orth (transform (shift_to (pr_centre pr)) glc_C6)) (pr_normal pr) < 0)
   \<and> (\<exists>cp s'. cremerPople_furanose furanose_env (atom_list furanose) furanose_sugar = Some (cp, s')
       \<and> trim (name (nz5_substituent furanose_env (sugar_ring_elements furanose_sugar))) = ''XXX''
       \<and> sugar_handedness s' = ''N'')"
proof (rule conjI)
  from glucose_cremer_pople obtain cp s' where
    c: "cremerPople_pyranose glucose_env glucose_atoms glucose_sugar = Some (cp, s')"
    and d: "sugar_handedness s' = ''D''"
    by blast
  from handedness_rule [of glucose_env glucose_atoms glucose_sugar cp s', THEN conjunct1, rule_format, OF c]
  obtain pr where
    pr: "project_ring (atom_list glucose_sugar) glucose_atoms
           (map (\<lambda>a. trim (name a)) (take 6 (sugar_ring_elements glucose_sugar))) = Some pr"
    and v: "sugar_handedness s' = ''D'' \<longleftrightarrow>
         \<not> (trim (name (transform (shift_to (pr_centre pr)) (nz6_substituent glucose_env (sugar_ring_elements glucose_sugar)))) = ''XXX''
            \<or> is_part_of_ring (transform (shift_to (pr_centre pr)) (nz6_substituent glucose_env (sugar_ring_elements glucose_sugar)))
                 (sugar_ring_elements glucose_sugar))
         \<and> pr_z pr ! 5 - dot (coord_orth (transform (shift_to (pr_centre pr))
               (nz6_substituent glucose_env (sugar_ring_elements glucose_sugar)))) (pr_normal pr) < 0"
    unfolding Let_def by blast
  have sub: "nz6_substituent glucose_env (sugar_ring_elements glucose_sugar) = glc_C6"
    by (simp add: glucose_substituent)
  from v d have "pr_z pr ! 5 - dot (coord_orth (transform (shift_to (pr_centre pr)) glc_C6)) (pr_normal pr) < 0"
    unfolding sub by blast
  with c pr sub d
  show "\<exists>cp s' pr. cremerPople_pyranose glucose_env glucose_atoms glucose_sugar = Some (cp, s')
       \<and> project_ring (atom_list glucose_sugar) glucose_atoms
           (map (\<lambda>a. trim (name a)) (take 6 (sugar_ring_elements glucose_sugar))) = Some pr
       \<and> nz6_substituent glucose_env (sugar_ring_elements glucose_sugar) = glc_C6
       \<and> sugar_handedness s' = ''D''
       \<and> pr_z pr ! 5 - dot (coord_orth (transform (shift_to (pr_centre pr)) glc_C6)) (pr_normal pr) < 0"
    by blast
next
  have "\<exists>r. cremerPople_furanose furanose_env (atom_list furanose) furanose_sugar = Some r"
    by (rule cremerPople_furanose_Some) (use furanose_resolvable in \<open>simp_all add: furanose_ring_def\<close>)
  then obtain cp s' where
    c: "cremerPople_furanose furanose_env (atom_list furanose) furanose_sugar = Some (cp, s')"
    by auto
  have x: "trim (name (nz5_substituent furanose_env (sugar_ring_elements furanose_sugar))) = ''XXX''"
    by (simp add: furanose_substituent name_XXX)
  from handedness_rule [of _ _ _ _ _ furanose_env "atom_list furanose" furanose_sugar cp s',
      THEN conjunct2, rule_format, OF c]
  obtain pr where
    pr: "project_ring (atom_list furanose_sugar) (atom_list furanose_sugar)
           (map (\<lambda>a. trim (name a)) (take 5 (sugar_ring_elements furanose_sugar))) = Some pr"
    and v: "sugar_handedness s' = ''N'' \<longleftrightarrow>
         (trim (name (transform (shift_to (pr_centre pr)) (nz5_substituent furanose_env (sugar_ring_elements furanose_sugar)))) = ''XXX''
            \<or> is_part_of_ring (transform (shift_to (pr_centre pr)) (nz5_substituent furanose_env (sugar_ring_elements furanose_sugar)))
                 (sugar_ring_elements furanose_sugar))"
    unfolding Let_def by blast
  from v x have "sugar_handedness s' = ''N''" by simp
  with c x
  show "\<exists>cp s'. cremerPople_furanose furanose_env (atom_list furanose) furanose_sugar = Some (cp, s')
       \<and> trim (name (nz5_substituent furanose_env (sugar_ring_elements furanose_sugar))) = ''XXX''
       \<and> sugar_handedness s' = ''N''"
    by blast
qed

end
